theory Spec2Isabelle
  imports Complex_Main "HOL-Library.List_Lexorder" "HOL-Library.Char_ord"
begin

section \<open>Python failures as values\<close>

text \<open>
  Every place where the Python source can raise is a branch of the model that returns
  \<open>Inl\<close> of the exception class.
\<close>

datatype error = IndexError | TypeError | AttributeError | NameError | KeyError | ValueError

section \<open>applications/layers.py\<close>

subsection \<open>The circuit, an external collaborator\<close>

text \<open>
  \<open>Circuit\<close> is imported from another module. The layer code only reads its
  \<open>_nqubits\<close> attribute and calls gate methods on it, so a circuit object is modelled
  as its qubit count together with the log of the method calls it has received: the
  method name, the positional qubit arguments and the \<open>theta\<close> keyword argument if one
  was passed. Angles are Python floats (or tensors); they are idealised as real numbers.

  Circuits are mutable objects that the layer functions receive by reference and hand
  back, so they live in a store indexed by references.
\<close>

datatype call = Call string "nat list" "real option"

record circuit =
  nqubits :: nat
  calls :: "call list"

type_synonym cref = nat
type_synonym cstore = "cref \<Rightarrow> circuit"

definition invoke :: "cref \<Rightarrow> call \<Rightarrow> cstore \<Rightarrow> cstore" where
  "invoke c k h = h(c := (h c)\<lparr>calls := calls (h c) @ [k]\<rparr>)"

text \<open>The four gate methods that \<open>generate_double_gate\<close> calls by name.\<close>

definition H :: "cref \<Rightarrow> nat \<Rightarrow> cstore \<Rightarrow> cstore" where
  "H c q = invoke c (Call ''H'' [q] None)"

definition rx :: "cref \<Rightarrow> nat \<Rightarrow> real \<Rightarrow> cstore \<Rightarrow> cstore" where
  "rx c q theta = invoke c (Call ''rx'' [q] (Some theta))"

definition rz :: "cref \<Rightarrow> nat \<Rightarrow> real \<Rightarrow> cstore \<Rightarrow> cstore" where
  "rz c q theta = invoke c (Call ''rz'' [q] (Some theta))"

definition CNOT :: "cref \<Rightarrow> nat \<Rightarrow> nat \<Rightarrow> cstore \<Rightarrow> cstore" where
  "CNOT c q1 q2 = invoke c (Call ''CNOT'' [q1, q2] None)"

subsection \<open>The graph, an external collaborator\<close>

text \<open>
  A networkx graph is used through two operations only: iterating \<open>g.edges\<close> and
  looking up the attribute dictionary \<open>g[u][v]\<close> of an edge. It is modelled as the list
  of its edges in iteration order, each with its attribute dictionary. The lookup
  \<open>g[u][v]\<close> of an undirected graph finds the edge under either orientation and
  raises \<open>KeyError\<close> when there is none.
\<close>

type_synonym attrs = "(string \<times> real) list"
type_synonym graph = "((nat \<times> nat) \<times> attrs) list"

definition edges :: "graph \<Rightarrow> (nat \<times> nat) list" where
  "edges g = map fst g"

definition getitem2 :: "graph \<Rightarrow> nat \<Rightarrow> nat \<Rightarrow> attrs option" where
  "getitem2 g u v =
     map_option snd (find (\<lambda>e. fst e = (u, v) \<or> fst e = (v, u)) g)"

definition dict_get :: "attrs \<Rightarrow> string \<Rightarrow> real \<Rightarrow> real" where
  "dict_get d k dflt = (case map_of d k of None \<Rightarrow> dflt | Some w \<Rightarrow> w)"

text \<open>
  \<open>nx.complete_graph(n)\<close>: the nodes \<open>0..n-1\<close>, an edge for every pair \<open>i < j\<close> with an
  empty attribute dictionary, iterated in lexicographic order.
\<close>

definition complete_graph :: "nat \<Rightarrow> graph" where
  "complete_graph n = concat (map (\<lambda>i. map (\<lambda>j. ((i, j), [])) [Suc i..<n]) [0..<n])"

subsection \<open>Generated functions and the module namespace\<close>

text \<open>
  The three generators build a closure \<open>f\<close>, attach attributes to it and bind it in the
  module under a computed name. A closure is represented by the generator it came from
  and the variables it captured; a function object is the closure with the attributes
  the generator sets (\<open>__doc__\<close>, \<open>__repr__\<close>, \<open>__trainable__\<close>).
\<close>

datatype closure =
    DoubleGateF char char
  | GateLayerF string
  | DoubleGateLayerF string

record fobj =
  f_body :: closure
  f_doc :: string
  f_repr :: "string option"
  f_trainable :: "bool option"

record layers_module =
  namespace :: "string \<rightharpoonup> fobj"
  cset :: "fobj list"

definition setattr :: "string \<Rightarrow> fobj \<Rightarrow> layers_module \<Rightarrow> layers_module" where
  "setattr n f m = m\<lparr>namespace := (namespace m)(n \<mapsto> f)\<rparr>"

subsection \<open>generate_double_gate\<close>

text \<open>
  The inner function \<open>f\<close> of \<open>generate_double_gate\<close>, with the captured \<open>d1\<close>, \<open>d2\<close>.
  It returns the reference it was given.
\<close>

definition double_gate_f ::
  "char \<Rightarrow> char \<Rightarrow> cref \<Rightarrow> nat \<Rightarrow> nat \<Rightarrow> real \<Rightarrow> cstore \<Rightarrow> cref \<times> cstore" where
  "double_gate_f d1 d2 circuit qubit1 qubit2 symbol h0 =
     (let h1 = (if d1 = CHR ''x'' then H circuit qubit1 h0
                else if d1 = CHR ''y'' then rx circuit qubit1 (- pi / 2) h0
                else h0);
          h2 = (if d2 = CHR ''x'' then H circuit qubit2 h1
                else if d2 = CHR ''y'' then rx circuit qubit2 (- pi / 2) h1
                else h1);
          h3 = CNOT circuit qubit1 qubit2 h2;
          h4 = rz circuit qubit2 symbol h3;
          h5 = CNOT circuit qubit1 qubit2 h4;
          h6 = (if d1 = CHR ''x'' then H circuit qubit1 h5
                else if d1 = CHR ''y'' then rx circuit qubit1 (pi / 2) h5
                else h5);
          h7 = (if d2 = CHR ''x'' then H circuit qubit2 h6
                else if d2 = CHR ''y'' then rx circuit qubit2 (pi / 2) h6
                else h6)
      in (circuit, h7))"

text \<open>
  \<open>gates[0], gates[1]\<close> raises \<open>IndexError\<close> on a string shorter than two characters;
  nothing else is checked.
\<close>

definition generate_double_gate :: "string \<Rightarrow> layers_module \<Rightarrow> error + layers_module" where
  "generate_double_gate gates m =
     (if length gates < 2 then Inl IndexError
      else
        let d1 = gates ! 0; d2 = gates ! 1;
            f = \<lparr>f_body = DoubleGateF d1 d2, f_doc = gates @ ''gate'',
                 f_repr = None, f_trainable = None\<rparr>
        in Inr (setattr (gates @ ''gate'') f m))"

subsection \<open>generate_gate_layer\<close>

text \<open>
  \<open>str.lower\<close> on the ASCII letters, which is all that gate names contain.
\<close>

definition lower_char :: "char \<Rightarrow> char" where
  "lower_char c =
     (case map_of (zip ''ABCDEFGHIJKLMNOPQRSTUVWXYZ'' ''abcdefghijklmnopqrstuvwxyz'') c of
        None \<Rightarrow> c
      | Some d \<Rightarrow> d)"

definition lower :: "string \<Rightarrow> string" where
  "lower s = map lower_char s"

text \<open>
  The two loops of the inner function \<open>f\<close>, over \<open>range(circuit._nqubits)\<close>. The first
  calls the method named \<open>gate\<close> with the qubit index only. The second computes
  \<open>2 * symbol\<close> at every iteration, which raises \<open>TypeError\<close> when \<open>symbol\<close> was left
  at its default \<open>None\<close>.
\<close>

fun gate_layer_fixed :: "string \<Rightarrow> cref \<Rightarrow> nat list \<Rightarrow> cstore \<Rightarrow> cstore" where
  "gate_layer_fixed gate circuit [] h = h"
| "gate_layer_fixed gate circuit (n # ns) h =
     gate_layer_fixed gate circuit ns (invoke circuit (Call gate [n] None) h)"

fun gate_layer_param ::
  "string \<Rightarrow> cref \<Rightarrow> real option \<Rightarrow> nat list \<Rightarrow> cstore \<Rightarrow> error + cstore" where
  "gate_layer_param gate circuit symbol [] h = Inr h"
| "gate_layer_param gate circuit symbol (n # ns) h =
     (case symbol of
        None \<Rightarrow> Inl TypeError
      | Some s \<Rightarrow>
          gate_layer_param gate circuit symbol ns
            (invoke circuit (Call gate [n] (Some (2 * s))) h))"

text \<open>
  \<open>Circuit.sgates\<close>, the list of the names of the gates without a parameter, is a
  class attribute of the external \<open>Circuit\<close>; it is the parameter \<open>sgates\<close>. The
  argument \<open>g\<close> is accepted and not used.
\<close>

definition gate_layer_f ::
  "string list \<Rightarrow> string \<Rightarrow> cref \<Rightarrow> real option \<Rightarrow> graph option \<Rightarrow> cstore
     \<Rightarrow> error + cref \<times> cstore" where
  "gate_layer_f sgates gate circuit symbol g h =
     (if lower gate \<in> set sgates then
        Inr (circuit, gate_layer_fixed gate circuit [0..<nqubits (h circuit)] h)
      else
        (case gate_layer_param gate circuit symbol [0..<nqubits (h circuit)] h of
           Inl e \<Rightarrow> Inl e
         | Inr h' \<Rightarrow> Inr (circuit, h')))"

text \<open>
  The attribute \<open>__trainable__\<close> tests \<open>gate\<close> itself against \<open>Circuit.sgates\<close>, where
  the body of \<open>f\<close> tests \<open>gate.lower()\<close>.
\<close>

definition generate_gate_layer :: "string list \<Rightarrow> string \<Rightarrow> layers_module \<Rightarrow> layers_module" where
  "generate_gate_layer sgates gate m =
     (let f = \<lparr>f_body = GateLayerF gate, f_doc = gate @ ''layer'',
               f_repr = Some (gate @ ''layer''),
               f_trainable = Some (if gate \<in> set sgates then False else True)\<rparr>
      in setattr (gate @ ''layer'') f m)"

subsection \<open>generate_double_gate_layer\<close>

text \<open>
  Calling whatever object \<open>getattr(thismodule, gates + "gate")\<close> returns with the four
  arguments \<open>(circuit, qubit1, qubit2, angle)\<close>. A double-gate applier takes them; the
  layer functions take at most three arguments and raise \<open>TypeError\<close>.
\<close>

fun call4 :: "fobj \<Rightarrow> cref \<Rightarrow> nat \<Rightarrow> nat \<Rightarrow> real \<Rightarrow> cstore \<Rightarrow> error + cref \<times> cstore" where
  "call4 fn circuit qubit1 qubit2 symbol h =
     (case f_body fn of
        DoubleGateF d1 d2 \<Rightarrow> Inr (double_gate_f d1 d2 circuit qubit1 qubit2 symbol h)
      | GateLayerF gate \<Rightarrow> Inl TypeError
      | DoubleGateLayerF gates \<Rightarrow> Inl TypeError)"

text \<open>
  The loop \<open>for e in g.edges\<close>. At every edge the applier is looked up in the module by
  name (\<open>AttributeError\<close> when it is not bound), then the angle
  \<open>-symbol * g[e[0]][e[1]].get("weight", 1.0) * 2\<close> is computed, then the applier is
  called; the value it returns is dropped.
\<close>

fun double_gate_layer_loop ::
  "layers_module \<Rightarrow> string \<Rightarrow> cref \<Rightarrow> real \<Rightarrow> graph \<Rightarrow> (nat \<times> nat) list \<Rightarrow> cstore
     \<Rightarrow> error + cstore" where
  "double_gate_layer_loop m gates circuit symbol g [] h = Inr h"
| "double_gate_layer_loop m gates circuit symbol g (e # es) h =
     (let qubit1 = fst e; qubit2 = snd e in
      case namespace m (gates @ ''gate'') of
        None \<Rightarrow> Inl AttributeError
      | Some fn \<Rightarrow>
          (case getitem2 g (fst e) (snd e) of
             None \<Rightarrow> Inl KeyError
           | Some d \<Rightarrow>
               (case call4 fn circuit qubit1 qubit2
                       (- symbol * dict_get d ''weight'' 1.0 * 2) h of
                  Inl err \<Rightarrow> Inl err
                | Inr r \<Rightarrow> double_gate_layer_loop m gates circuit symbol g es (snd r))))"

definition double_gate_layer_f ::
  "layers_module \<Rightarrow> string \<Rightarrow> cref \<Rightarrow> real \<Rightarrow> graph option \<Rightarrow> cstore
     \<Rightarrow> error + cref \<times> cstore" where
  "double_gate_layer_f m gates circuit symbol g0 h =
     (let g = (case g0 of None \<Rightarrow> complete_graph (nqubits (h circuit)) | Some g' \<Rightarrow> g') in
      case double_gate_layer_loop m gates circuit symbol g (edges g) h of
        Inl e \<Rightarrow> Inl e
      | Inr h' \<Rightarrow> Inr (circuit, h'))"

definition generate_double_gate_layer :: "string \<Rightarrow> layers_module \<Rightarrow> layers_module" where
  "generate_double_gate_layer gates m =
     (let f = \<lparr>f_body = DoubleGateLayerF gates, f_doc = gates @ ''layer'',
               f_repr = Some (gates @ ''layer''), f_trainable = Some True\<rparr>
      in setattr (gates @ ''layer'') f m)"

subsection \<open>Calling a layer\<close>

text \<open>
  A layer is called as \<open>layer(circuit, symbol, g)\<close>. The single-qubit layers have a
  default for \<open>symbol\<close>; the two-qubit layers need it and use it in arithmetic, and a
  double-gate applier called with three arguments lacks its fourth.
\<close>

definition call_layer ::
  "string list \<Rightarrow> layers_module \<Rightarrow> fobj \<Rightarrow> cref \<Rightarrow> real option \<Rightarrow> graph option \<Rightarrow> cstore
     \<Rightarrow> error + cref \<times> cstore" where
  "call_layer sgates m fn circuit symbol g h =
     (case f_body fn of
        GateLayerF gate \<Rightarrow> gate_layer_f sgates gate circuit symbol g h
      | DoubleGateLayerF gates \<Rightarrow>
          (case symbol of
             None \<Rightarrow> Inl TypeError
           | Some s \<Rightarrow> double_gate_layer_f m gates circuit s g h)
      | DoubleGateF d1 d2 \<Rightarrow> Inl TypeError)"

subsection \<open>Module initialisation and the choice set\<close>

text \<open>
  The two loops at module level. \<open>itertools.product\<close> of \<open>["x", "y", "z"]\<close> with itself
  yields the nine pairs in lexicographic order; each pair is joined into a two-letter
  string and given to both generators.
\<close>

fun gate_layer_all :: "string list \<Rightarrow> string list \<Rightarrow> layers_module \<Rightarrow> layers_module" where
  "gate_layer_all sgates [] m = m"
| "gate_layer_all sgates (gate # rest) m =
     gate_layer_all sgates rest (generate_gate_layer sgates gate m)"

fun double_all :: "string list \<Rightarrow> layers_module \<Rightarrow> error + layers_module" where
  "double_all [] m = Inr m"
| "double_all (gates # rest) m =
     (case generate_double_gate gates m of
        Inl e \<Rightarrow> Inl e
      | Inr m' \<Rightarrow> double_all rest (generate_double_gate_layer gates m'))"

definition product_xyz :: "string list" where
  "product_xyz = concat (map (\<lambda>a. map (\<lambda>b. [a, b]) ''xyz'') ''xyz'')"

text \<open>
  \<open>set_choice\<close>: the test \<open>not l\<close> holds for \<open>None\<close> and for an empty sequence. The four
  default layers are global names, looked up when the branch runs (\<open>NameError\<close> when
  one is not bound).
\<close>

definition lookup_global :: "layers_module \<Rightarrow> string \<Rightarrow> error + fobj" where
  "lookup_global m n = (case namespace m n of None \<Rightarrow> Inl NameError | Some f \<Rightarrow> Inr f)"

fun lookup_globals :: "layers_module \<Rightarrow> string list \<Rightarrow> error + fobj list" where
  "lookup_globals m [] = Inr []"
| "lookup_globals m (n # ns) =
     (case lookup_global m n of
        Inl e \<Rightarrow> Inl e
      | Inr f \<Rightarrow> (case lookup_globals m ns of Inl e \<Rightarrow> Inl e | Inr fs \<Rightarrow> Inr (f # fs)))"

definition set_choice :: "fobj list option \<Rightarrow> layers_module \<Rightarrow> error + layers_module" where
  "set_choice l m =
     (if l = None \<or> l = Some [] then
        (case lookup_globals m [''Hlayer'', ''rxlayer'', ''rzlayer'', ''zzlayer''] of
           Inl e \<Rightarrow> Inl e
         | Inr fs \<Rightarrow> Inr (m\<lparr>cset := fs\<rparr>))
      else Inr (m\<lparr>cset := the l\<rparr>))"

definition get_choice :: "layers_module \<Rightarrow> fobj list" where
  "get_choice m = cset m"

definition empty_module :: layers_module where
  "empty_module = \<lparr>namespace = Map.empty, cset = []\<rparr>"

text \<open>Loading the module: the generator loops, \<open>_cset = []\<close>, then \<open>set_choice()\<close>.\<close>

definition layers_init :: "string list \<Rightarrow> error + layers_module" where
  "layers_init sgates =
     (let m1 = gate_layer_all sgates [''rx'', ''ry'', ''rz'', ''H''] empty_module
      in case double_all product_xyz m1 of
           Inl e \<Rightarrow> Inl e
         | Inr m2 \<Rightarrow> set_choice None (m2\<lparr>cset := []\<rparr>))"

section \<open>gates.py\<close>

subsection \<open>Arrays, nodes and the module state\<close>

text \<open>
  A numpy array is a mutable object: a buffer of numbers and a shape. Two array objects
  can share one buffer (\<open>np.reshape\<close> returns a view), so an array is a buffer address
  with a shape, and the buffers live in a memory that only grows. Numbers are idealised
  as complex numbers; the conversion to the module's dtype (\<open>npdtype\<close>, imported from
  another module) is a parameter.

  The module's global names are an association list from names to values. Only the
  values that matter to \<open>meta_gate\<close> are represented: arrays, and the
  \<open>partial(template, m, n)\<close> objects that \<open>meta_gate\<close> binds. The imports and the
  functions of the module are left out; none of their names passes the name filter of
  \<open>meta_gate\<close>.

  numpy's process-wide random source is the pair of where it was last seeded from and
  how many numbers have been drawn since. The numbers themselves come from the
  parameter \<open>e_rand\<close>; \<open>e_rvs\<close> stands for \<open>unitary_group.rvs(dim=4)\<close>, which draws
  from the same source and returns the sixteen entries with the count of the numbers
  it consumed; \<open>e_expm\<close> stands for \<open>scipy.linalg.expm\<close> on the entries of a square
  matrix.
\<close>

type_synonym addr = nat

record ndarray =
  a_buf :: addr
  a_shape :: "nat list"

datatype gvalue = Array ndarray | Partial ndarray string

record node =
  n_tensor :: ndarray
  n_name :: "string option"

datatype origin = Entropy | Seeded int

record rng =
  r_origin :: origin
  r_drawn :: nat

record gstate =
  g_attrs :: "(string \<times> gvalue) list"
  g_mem :: "addr \<Rightarrow> complex list"
  g_next :: addr
  g_rng :: rng

record env =
  e_npdtype :: "complex \<Rightarrow> complex"
  e_rand :: "origin \<Rightarrow> nat \<Rightarrow> real"
  e_rvs :: "origin \<Rightarrow> nat \<Rightarrow> complex list \<times> nat"
  e_expm :: "complex list \<Rightarrow> complex list"

definition new_array :: "nat list \<Rightarrow> complex list \<Rightarrow> gstate \<Rightarrow> ndarray \<times> gstate" where
  "new_array sh xs s =
     (\<lparr>a_buf = g_next s, a_shape = sh\<rparr>,
      s\<lparr>g_mem := (g_mem s)(g_next s := xs), g_next := g_next s + 1\<rparr>)"

definition setattr_g :: "string \<Rightarrow> gvalue \<Rightarrow> gstate \<Rightarrow> gstate" where
  "setattr_g k v s = s\<lparr>g_attrs := (k, v) # filter (\<lambda>p. fst p \<noteq> k) (g_attrs s)\<rparr>"

definition getattr_g :: "gstate \<Rightarrow> string \<Rightarrow> gvalue option" where
  "getattr_g s k = map_of (g_attrs s) k"

text \<open>\<open>dir(module)\<close>: the bound names, sorted.\<close>

definition dir_g :: "gstate \<Rightarrow> string list" where
  "dir_g s = sort (map fst (g_attrs s))"

text \<open>An assignment \<open>name = np.array(...)\<close> at module level.\<close>

definition assign_array :: "string \<Rightarrow> nat list \<Rightarrow> complex list \<Rightarrow> gstate \<Rightarrow> gstate" where
  "assign_array k sh xs s = (let (a, s') = new_array sh xs s in setattr_g k (Array a) s')"

subsection \<open>The literal states and matrices\<close>

text \<open>
  The entries of the literal matrices, row by row. \<open>_h_matrix\<close> is the literal array
  times \<open>1 / np.sqrt(2)\<close>.
\<close>

definition h_entries :: "complex list" where
  "h_entries = map ((*) (complex_of_real (1 / sqrt 2))) [1, 1, 1, - 1]"

definition i_entries :: "complex list" where
  "i_entries = [1, 0, 0, 1]"

definition x_entries :: "complex list" where
  "x_entries = [0, 1, 1, 0]"

definition y_entries :: "complex list" where
  "y_entries = [0, - \<i>, \<i>, 0]"

definition z_entries :: "complex list" where
  "z_entries = [1, 0, 0, - 1]"

definition cnot_entries :: "complex list" where
  "cnot_entries = [1, 0, 0, 0,  0, 1, 0, 0,  0, 0, 0, 1,  0, 0, 1, 0]"

definition cz_entries :: "complex list" where
  "cz_entries = [1, 0, 0, 0,  0, 1, 0, 0,  0, 0, 1, 0,  0, 0, 0, - 1]"

definition swap_entries :: "complex list" where
  "swap_entries = [1, 0, 0, 0,  0, 0, 1, 0,  0, 1, 0, 0,  0, 0, 0, 1]"

text \<open>
  The assignments at the top of the module, in order. The four states are created
  with \<open>dtype=npdtype\<close>; the matrices keep the dtype of their literals.
\<close>

definition gates_literals :: "env \<Rightarrow> gstate \<Rightarrow> gstate" where
  "gates_literals ev s0 =
     (let zero = map (e_npdtype ev) [1, 0];
          one = map (e_npdtype ev) [0, 1];
          c = complex_of_real (1 / sqrt 2);
          s1 = assign_array ''zero_state'' [2] zero s0;
          s2 = assign_array ''one_state'' [2] one s1;
          s3 = assign_array ''plus_state'' [2] (map ((*) c) (map2 (+) zero one)) s2;
          s4 = assign_array ''minus_state'' [2] (map ((*) c) (map2 (-) zero one)) s3;
          s5 = assign_array ''_h_matrix'' [2, 2] h_entries s4;
          s6 = assign_array ''_i_matrix'' [2, 2] i_entries s5;
          s7 = assign_array ''_x_matrix'' [2, 2] x_entries s6;
          s8 = assign_array ''_y_matrix'' [2, 2] y_entries s7;
          s9 = assign_array ''_z_matrix'' [2, 2] z_entries s8;
          s10 = assign_array ''_cnot_matrix'' [4, 4] cnot_entries s9;
          s11 = assign_array ''_cz_matrix'' [4, 4] cz_entries s10;
          s12 = assign_array ''_swap_matrix'' [4, 4] swap_entries s11
      in s12)"

subsection \<open>template and meta_gate\<close>

text \<open>
  \<open>deepcopy\<close> of an array makes a new array object on a new buffer with the same
  entries; \<open>tn.Node\<close> keeps the array it is given.
\<close>

definition deepcopy :: "ndarray \<Rightarrow> gstate \<Rightarrow> ndarray \<times> gstate" where
  "deepcopy m s = new_array (a_shape m) (g_mem s (a_buf m)) s"

definition template :: "ndarray \<Rightarrow> string \<Rightarrow> gstate \<Rightarrow> node \<times> gstate" where
  "template m n s =
     (let (m', s') = deepcopy m s in (\<lparr>n_tensor = m', n_name = Some n\<rparr>, s'))"

text \<open>Calling a module attribute with no argument: a \<open>partial\<close> is callable, an array is not.\<close>

fun call0 :: "gvalue \<Rightarrow> gstate \<Rightarrow> error + node \<times> gstate" where
  "call0 (Partial m n) s = Inr (template m n s)"
| "call0 (Array a) s = Inl TypeError"

definition startswith :: "string \<Rightarrow> string \<Rightarrow> bool" where
  "startswith s p = (take (length p) s = p)"

definition endswith :: "string \<Rightarrow> string \<Rightarrow> bool" where
  "endswith s p = (length p \<le> length s \<and> drop (length s - length p) s = p)"

text \<open>
  \<open>np.reshape(m, newshape=(2, 2, 2, 2))\<close> returns a view on the buffer of \<open>m\<close> and
  raises \<open>ValueError\<close> unless \<open>m\<close> has sixteen entries; \<open>m.astype(npdtype)\<close> always
  allocates.
\<close>

definition reshape2222 :: "ndarray \<Rightarrow> gstate \<Rightarrow> error + ndarray" where
  "reshape2222 m s =
     (if length (g_mem s (a_buf m)) = 16 then Inr (m\<lparr>a_shape := [2, 2, 2, 2]\<rparr>)
      else Inl ValueError)"

definition astype :: "env \<Rightarrow> ndarray \<Rightarrow> gstate \<Rightarrow> ndarray \<times> gstate" where
  "astype ev m s = new_array (a_shape m) (map (e_npdtype ev) (g_mem s (a_buf m))) s"

text \<open>
  The body of the loop of \<open>meta_gate\<close> for a name that passed the filter:
  \<open>name[1:-7]\<close> drops the leading underscore and the trailing \<open>_matrix\<close>;
  \<open>m.shape[0]\<close> needs an array of at least one dimension.
\<close>

definition meta_gate_step :: "env \<Rightarrow> string \<Rightarrow> gstate \<Rightarrow> error + gstate" where
  "meta_gate_step ev nm s =
     (let n = drop 1 (take (length nm - 7) nm) in
      case getattr_g s nm of
        None \<Rightarrow> Inl AttributeError
      | Some (Partial m0 n0) \<Rightarrow> Inl AttributeError
      | Some (Array m) \<Rightarrow>
          (case a_shape m of
             [] \<Rightarrow> Inl IndexError
           | d # ds \<Rightarrow>
               (case (if d = 4 then reshape2222 m s else Inr m) of
                  Inl e \<Rightarrow> Inl e
                | Inr m1 \<Rightarrow>
                    (let (m2, s1) = astype ev m1 s;
                         temp = Partial m2 n
                     in Inr (setattr_g n temp (setattr_g (n @ ''gate'') temp s1))))))"

fun meta_gate_loop :: "env \<Rightarrow> string list \<Rightarrow> gstate \<Rightarrow> error + gstate" where
  "meta_gate_loop ev [] s = Inr s"
| "meta_gate_loop ev (nm # rest) s =
     (if endswith nm ''_matrix'' \<and> startswith nm ''_'' then
        (case meta_gate_step ev nm s of
           Inl e \<Rightarrow> Inl e
         | Inr s' \<Rightarrow> meta_gate_loop ev rest s')
      else meta_gate_loop ev rest s)"

definition meta_gate :: "env \<Rightarrow> gstate \<Rightarrow> error + gstate" where
  "meta_gate ev s = meta_gate_loop ev (dir_g s) s"

definition empty_gstate :: gstate where
  "empty_gstate =
     \<lparr>g_attrs = [], g_mem = (\<lambda>a. []), g_next = 0, g_rng = \<lparr>r_origin = Entropy, r_drawn = 0\<rparr>\<rparr>"

text \<open>Loading the module: the literals, then \<open>meta_gate()\<close>.\<close>

definition gates_init :: "env \<Rightarrow> error + gstate" where
  "gates_init ev = meta_gate ev (gates_literals ev empty_gstate)"

subsection \<open>The random gates\<close>

text \<open>
  \<open>np.random.seed\<close> accepts the integers from 0 to \<open>2**32 - 1\<close> and raises
  \<open>ValueError\<close> otherwise. \<open>np.random.rand(3)\<close> takes the next three numbers.
\<close>

definition np_random_seed :: "int \<Rightarrow> gstate \<Rightarrow> error + gstate" where
  "np_random_seed v s =
     (if 0 \<le> v \<and> v < 2 ^ 32 then Inr (s\<lparr>g_rng := \<lparr>r_origin = Seeded v, r_drawn = 0\<rparr>\<rparr>)
      else Inl ValueError)"

definition np_random_rand3 :: "env \<Rightarrow> gstate \<Rightarrow> (real \<times> real \<times> real) \<times> gstate" where
  "np_random_rand3 ev s =
     (let r = g_rng s; f = e_rand ev (r_origin r); k = r_drawn r
      in ((f k, f (k + 1), f (k + 2)), s\<lparr>g_rng := r\<lparr>r_drawn := k + 3\<rparr>\<rparr>))"

text \<open>
  The test \<open>if seed:\<close> is on the truth value of \<open>seed\<close>: \<open>None\<close> and \<open>0\<close> are both
  false.
\<close>

definition seed_if_truthy :: "int option \<Rightarrow> gstate \<Rightarrow> error + gstate" where
  "seed_if_truthy seed s =
     (case seed of
        None \<Rightarrow> Inr s
      | Some v \<Rightarrow> if v \<noteq> 0 then np_random_seed v s else Inr s)"

text \<open>
  Array values in expressions: the shape and the entries. A scalar times an array
  multiplies every entry; \<open>*\<close> and \<open>+\<close> between two arrays work entry by entry. Two
  operands of different shapes are reported as \<open>ValueError\<close>; numpy would first try to
  broadcast them, which the 2 by 2 matrices of this module never need.
\<close>

type_synonym varr = "nat list \<times> complex list"

definition scalar_mul :: "complex \<Rightarrow> varr \<Rightarrow> varr" where
  "scalar_mul c a = (fst a, map ((*) c) (snd a))"

definition array_mul :: "varr \<Rightarrow> varr \<Rightarrow> error + varr" where
  "array_mul a b =
     (if fst a = fst b then Inr (fst a, map2 (*) (snd a) (snd b)) else Inl ValueError)"

definition array_add :: "varr \<Rightarrow> varr \<Rightarrow> error + varr" where
  "array_add a b =
     (if fst a = fst b then Inr (fst a, map2 (+) (snd a) (snd b)) else Inl ValueError)"

definition global_array :: "gstate \<Rightarrow> string \<Rightarrow> error + varr" where
  "global_array s k =
     (case getattr_g s k of
        None \<Rightarrow> Inl NameError
      | Some (Partial m n) \<Rightarrow> Inl TypeError
      | Some (Array a) \<Rightarrow> Inr (a_shape a, g_mem s (a_buf a)))"

definition expm :: "env \<Rightarrow> varr \<Rightarrow> error + varr" where
  "expm ev a =
     (case fst a of
        [r, c] \<Rightarrow> if r = c then Inr (fst a, e_expm ev (snd a)) else Inl ValueError
      | _ \<Rightarrow> Inl ValueError)"

text \<open>
  The generator of \<open>rgate\<close>, in Python's order of evaluation:
  \<open>mx * _x_matrix + (((my * _y_matrix) * mz) * _z_matrix)\<close>.
\<close>

definition rgate_generator :: "gstate \<Rightarrow> real \<Rightarrow> real \<Rightarrow> real \<Rightarrow> error + varr" where
  "rgate_generator s mx my mz =
     (case global_array s ''_x_matrix'' of Inl e \<Rightarrow> Inl e | Inr x \<Rightarrow>
     (case global_array s ''_y_matrix'' of Inl e \<Rightarrow> Inl e | Inr y \<Rightarrow>
     (case global_array s ''_z_matrix'' of Inl e \<Rightarrow> Inl e | Inr z \<Rightarrow>
     (case array_mul (scalar_mul (complex_of_real mz) (scalar_mul (complex_of_real my) y)) z of
        Inl e \<Rightarrow> Inl e
      | Inr yz \<Rightarrow> array_add (scalar_mul (complex_of_real mx) x) yz))))"

definition rgate :: "env \<Rightarrow> int option \<Rightarrow> real \<Rightarrow> gstate \<Rightarrow> error + node \<times> gstate" where
  "rgate ev seed angle_scale s =
     (case seed_if_truthy seed s of Inl e \<Rightarrow> Inl e | Inr s1 \<Rightarrow>
        (let (u, s2) = np_random_rand3 ev s1;
             theta = fst u * 2 * pi;
             alpha = fst (snd u) * 2 * pi;
             phi = snd (snd u) * 2 * pi;
             mx = sin alpha * cos phi;
             my = sin alpha * sin phi;
             mz = cos alpha;
             theta' = theta * angle_scale
         in case rgate_generator s2 mx my mz of Inl e \<Rightarrow> Inl e | Inr gen \<Rightarrow>
            (case expm ev (scalar_mul (- \<i> * complex_of_real theta') gen) of
               Inl e \<Rightarrow> Inl e
             | Inr unitary \<Rightarrow>
                 (let (a, s3) = new_array (fst unitary) (snd unitary) s2
                  in Inr (\<lparr>n_tensor = a, n_name = None\<rparr>, s3)))))"

definition unitary_group_rvs4 :: "env \<Rightarrow> gstate \<Rightarrow> ndarray \<times> gstate" where
  "unitary_group_rvs4 ev s =
     (let r = g_rng s; (xs, k) = e_rvs ev (r_origin r) (r_drawn r)
      in new_array [4, 4] xs (s\<lparr>g_rng := r\<lparr>r_drawn := r_drawn r + k\<rparr>\<rparr>))"

definition random_two_qubit_gate :: "env \<Rightarrow> int option \<Rightarrow> gstate \<Rightarrow> error + node \<times> gstate" where
  "random_two_qubit_gate ev seed s =
     (case seed_if_truthy seed s of Inl e \<Rightarrow> Inl e | Inr s1 \<Rightarrow>
        (let (unitary, s2) = unitary_group_rvs4 ev s1 in
         case reshape2222 unitary s2 of Inl e \<Rightarrow> Inl e | Inr unitary' \<Rightarrow>
           (let (m, s3) = deepcopy unitary' s2
            in Inr (\<lparr>n_tensor = m, n_name = Some ''R2Q''\<rparr>, s3))))"

section \<open>Specification-side definitions\<close>

subsection \<open>Call sequences of the layers\<close>

text \<open>
  A store in which every circuit has \<open>n\<close> qubits and has received no call yet, and the
  effect of appending a list of calls to the log of one circuit.
\<close>

definition blank_store :: "nat \<Rightarrow> cstore" where
  "blank_store n = (\<lambda>r. \<lparr>nqubits = n, calls = []\<rparr>)"

definition append_calls :: "cref \<Rightarrow> call list \<Rightarrow> cstore \<Rightarrow> cstore" where
  "append_calls c ks h = h(c := (h c)\<lparr>calls := calls (h c) @ ks\<rparr>)"

text \<open>
  The basis labels of the specification and its basis-change convention: Hadamard for
  \<open>x\<close>, a rotation about X by \<open>-pi/2\<close> (undone by \<open>+pi/2\<close>) for \<open>y\<close>, nothing for \<open>z\<close>;
  and the sequence of the double gate as the specification lists it.
\<close>

datatype basis = BX | BY | BZ

fun label :: "basis \<Rightarrow> char" where
  "label BX = CHR ''x''"
| "label BY = CHR ''y''"
| "label BZ = CHR ''z''"

fun basis_change :: "basis \<Rightarrow> nat \<Rightarrow> call list" where
  "basis_change BX q = [Call ''H'' [q] None]"
| "basis_change BY q = [Call ''rx'' [q] (Some (- pi / 2))]"
| "basis_change BZ q = []"

fun basis_undo :: "basis \<Rightarrow> nat \<Rightarrow> call list" where
  "basis_undo BX q = [Call ''H'' [q] None]"
| "basis_undo BY q = [Call ''rx'' [q] (Some (pi / 2))]"
| "basis_undo BZ q = []"

definition double_gate_sequence :: "basis \<Rightarrow> basis \<Rightarrow> nat \<Rightarrow> nat \<Rightarrow> real \<Rightarrow> call list" where
  "double_gate_sequence b1 b2 q1 q2 angle =
     basis_change b1 q1 @ basis_change b2 q2 @
     [Call ''CNOT'' [q1, q2] None, Call ''rz'' [q2] (Some angle), Call ''CNOT'' [q1, q2] None] @
     basis_undo b1 q1 @ basis_undo b2 q2"

text \<open>The weight of an edge, 1 when the edge carries no \<open>weight\<close> attribute.\<close>

definition edge_weight :: "graph \<Rightarrow> nat \<times> nat \<Rightarrow> real" where
  "edge_weight g e =
     (case getitem2 g (fst e) (snd e) of
        None \<Rightarrow> 1
      | Some d \<Rightarrow> (case map_of d ''weight'' of None \<Rightarrow> 1 | Some w \<Rightarrow> w))"

text \<open>
  The rotation and the inverse rotation of an arbitrary character: those of the basis
  labels \<open>x\<close> and \<open>y\<close>, and nothing for every other character. They state what an
  applier does with a character that is no basis label.
\<close>

definition forward_rotation :: "char \<Rightarrow> nat \<Rightarrow> call list" where
  "forward_rotation d q =
     (if d = CHR ''x'' then [Call ''H'' [q] None]
      else if d = CHR ''y'' then [Call ''rx'' [q] (Some (- pi / 2))] else [])"

definition backward_rotation :: "char \<Rightarrow> nat \<Rightarrow> call list" where
  "backward_rotation d q =
     (if d = CHR ''x'' then [Call ''H'' [q] None]
      else if d = CHR ''y'' then [Call ''rx'' [q] (Some (pi / 2))] else [])"

definition sandwich :: "char \<Rightarrow> char \<Rightarrow> nat \<Rightarrow> nat \<Rightarrow> real \<Rightarrow> call list" where
  "sandwich d1 d2 q1 q2 a =
     forward_rotation d1 q1 @ forward_rotation d2 q2 @
     [Call ''CNOT'' [q1, q2] None, Call ''rz'' [q2] (Some a), Call ''CNOT'' [q1, q2] None] @
     backward_rotation d1 q1 @ backward_rotation d2 q2"

subsection \<open>The loaded layers module\<close>

text \<open>
  The function objects that the three generators build, and the namespace that loading
  the module leaves behind, written out binding by binding (latest first).
\<close>

definition gate_layer_obj :: "string list \<Rightarrow> string \<Rightarrow> fobj" where
  "gate_layer_obj sgates gate =
     \<lparr>f_body = GateLayerF gate, f_doc = gate @ ''layer'', f_repr = Some (gate @ ''layer''),
      f_trainable = Some (gate \<notin> set sgates)\<rparr>"

definition double_gate_obj :: "char \<Rightarrow> char \<Rightarrow> string \<Rightarrow> fobj" where
  "double_gate_obj d1 d2 gates =
     \<lparr>f_body = DoubleGateF d1 d2, f_doc = gates @ ''gate'', f_repr = None, f_trainable = None\<rparr>"

definition double_layer_obj :: "string \<Rightarrow> fobj" where
  "double_layer_obj gates =
     \<lparr>f_body = DoubleGateLayerF gates, f_doc = gates @ ''layer'',
      f_repr = Some (gates @ ''layer''), f_trainable = Some True\<rparr>"

definition pair_bindings :: "char \<Rightarrow> char \<Rightarrow> (string \<times> fobj) list" where
  "pair_bindings a b =
     [([a, b] @ ''layer'', double_layer_obj [a, b]), ([a, b] @ ''gate'', double_gate_obj a b [a, b])]"

definition loaded_namespace :: "string list \<Rightarrow> string \<rightharpoonup> fobj" where
  "loaded_namespace sgates =
     map_of (concat (map (\<lambda>a. concat (map (\<lambda>b. pair_bindings a b) ''zyx'')) ''zyx'') @
             map (\<lambda>g. (g @ ''layer'', gate_layer_obj sgates g)) [''H'', ''rz'', ''ry'', ''rx''])"

definition default_choice :: "string list \<Rightarrow> fobj list" where
  "default_choice sgates =
     [gate_layer_obj sgates ''H'', gate_layer_obj sgates ''rx'', gate_layer_obj sgates ''rz'',
      double_layer_obj ''zz'']"

text \<open>
  \<open>Circuit.sgates\<close> with the lower-case names of the fixed gates that \<open>gates.py\<close>
  defines (\<open>i, x, y, z, h, cnot, cz, swap\<close>); the body of a single-qubit layer tests
  \<open>gate.lower()\<close> against this list.
\<close>

definition lowercase_sgates :: "string list" where
  "lowercase_sgates = [''i'', ''x'', ''y'', ''z'', ''h'', ''cnot'', ''cz'', ''swap'']"

subsection \<open>The loaded gates module\<close>

text \<open>
  The state after the literal assignments of \<open>gates.py\<close>, and the state after
  \<open>meta_gate()\<close> has run on it: every matrix \<open>_g_matrix\<close> has a converted copy on a
  new buffer, bound as \<open>g\<close> and \<open>ggate\<close>.
\<close>

definition literal_state :: "env \<Rightarrow> gstate" where
  "literal_state ev =
     \<lparr>g_attrs =
        [(''_swap_matrix'', Array \<lparr>a_buf = 11, a_shape = [4, 4]\<rparr>),
         (''_cz_matrix'', Array \<lparr>a_buf = 10, a_shape = [4, 4]\<rparr>),
         (''_cnot_matrix'', Array \<lparr>a_buf = 9, a_shape = [4, 4]\<rparr>),
         (''_z_matrix'', Array \<lparr>a_buf = 8, a_shape = [2, 2]\<rparr>),
         (''_y_matrix'', Array \<lparr>a_buf = 7, a_shape = [2, 2]\<rparr>),
         (''_x_matrix'', Array \<lparr>a_buf = 6, a_shape = [2, 2]\<rparr>),
         (''_i_matrix'', Array \<lparr>a_buf = 5, a_shape = [2, 2]\<rparr>),
         (''_h_matrix'', Array \<lparr>a_buf = 4, a_shape = [2, 2]\<rparr>),
         (''minus_state'', Array \<lparr>a_buf = 3, a_shape = [2]\<rparr>),
         (''plus_state'', Array \<lparr>a_buf = 2, a_shape = [2]\<rparr>),
         (''one_state'', Array \<lparr>a_buf = 1, a_shape = [2]\<rparr>),
         (''zero_state'', Array \<lparr>a_buf = 0, a_shape = [2]\<rparr>)],
      g_mem = (\<lambda>a. [])
          (0 := map (e_npdtype ev) [1, 0],
           1 := map (e_npdtype ev) [0, 1],
           2 := map ((*) (complex_of_real (1 / sqrt 2)))
                  (map2 (+) (map (e_npdtype ev) [1, 0]) (map (e_npdtype ev) [0, 1])),
           3 := map ((*) (complex_of_real (1 / sqrt 2)))
                  (map2 (-) (map (e_npdtype ev) [1, 0]) (map (e_npdtype ev) [0, 1])),
           4 := h_entries, 5 := i_entries, 6 := x_entries, 7 := y_entries, 8 := z_entries,
           9 := cnot_entries, 10 := cz_entries, 11 := swap_entries),
      g_next = 12,
      g_rng = \<lparr>r_origin = Entropy, r_drawn = 0\<rparr>\<rparr>"

definition loaded_state :: "env \<Rightarrow> gstate" where
  "loaded_state ev =
     \<lparr>g_attrs =
        [(''z'', Partial \<lparr>a_buf = 19, a_shape = [2, 2]\<rparr> ''z''),
         (''zgate'', Partial \<lparr>a_buf = 19, a_shape = [2, 2]\<rparr> ''z''),
         (''y'', Partial \<lparr>a_buf = 18, a_shape = [2, 2]\<rparr> ''y''),
         (''ygate'', Partial \<lparr>a_buf = 18, a_shape = [2, 2]\<rparr> ''y''),
         (''x'', Partial \<lparr>a_buf = 17, a_shape = [2, 2]\<rparr> ''x''),
         (''xgate'', Partial \<lparr>a_buf = 17, a_shape = [2, 2]\<rparr> ''x''),
         (''swap'', Partial \<lparr>a_buf = 16, a_shape = [2, 2, 2, 2]\<rparr> ''swap''),
         (''swapgate'', Partial \<lparr>a_buf = 16, a_shape = [2, 2, 2, 2]\<rparr> ''swap''),
         (''i'', Partial \<lparr>a_buf = 15, a_shape = [2, 2]\<rparr> ''i''),
         (''igate'', Partial \<lparr>a_buf = 15, a_shape = [2, 2]\<rparr> ''i''),
         (''h'', Partial \<lparr>a_buf = 14, a_shape = [2, 2]\<rparr> ''h''),
         (''hgate'', Partial \<lparr>a_buf = 14, a_shape = [2, 2]\<rparr> ''h''),
         (''cz'', Partial \<lparr>a_buf = 13, a_shape = [2, 2, 2, 2]\<rparr> ''cz''),
         (''czgate'', Partial \<lparr>a_buf = 13, a_shape = [2, 2, 2, 2]\<rparr> ''cz''),
         (''cnot'', Partial \<lparr>a_buf = 12, a_shape = [2, 2, 2, 2]\<rparr> ''cnot''),
         (''cnotgate'', Partial \<lparr>a_buf = 12, a_shape = [2, 2, 2, 2]\<rparr> ''cnot'')]
        @ g_attrs (literal_state ev),
      g_mem = (g_mem (literal_state ev))
          (12 := map (e_npdtype ev) cnot_entries,
           13 := map (e_npdtype ev) cz_entries,
           14 := map (e_npdtype ev) h_entries,
           15 := map (e_npdtype ev) i_entries,
           16 := map (e_npdtype ev) swap_entries,
           17 := map (e_npdtype ev) x_entries,
           18 := map (e_npdtype ev) y_entries,
           19 := map (e_npdtype ev) z_entries),
      g_next = 20,
      g_rng = \<lparr>r_origin = Entropy, r_drawn = 0\<rparr>\<rparr>"

text \<open>
  \<open>frame s s'\<close>: every buffer that exists in \<open>s\<close> has the same entries in \<open>s'\<close>. The
  table of Pauli matrices that \<open>rgate\<close> reads is intact when the three names are bound
  to 2 by 2 arrays with the literal entries.
\<close>

definition frame :: "gstate \<Rightarrow> gstate \<Rightarrow> bool" where
  "frame s s' \<longleftrightarrow> g_next s \<le> g_next s' \<and> (\<forall>a<g_next s. g_mem s' a = g_mem s a)"

definition pauli_table :: "gstate \<Rightarrow> bool" where
  "pauli_table s \<longleftrightarrow>
     global_array s ''_x_matrix'' = Inr ([2, 2], x_entries) \<and>
     global_array s ''_y_matrix'' = Inr ([2, 2], y_entries) \<and>
     global_array s ''_z_matrix'' = Inr ([2, 2], z_entries)"

text \<open>
  The generator \<open>mx*X + my*Y*mz*Z\<close> of the specification, where \<open>*\<close> between two arrays
  is numpy's entry-by-entry product, and the entries of the node that \<open>rgate\<close> returns
  for given angles.
\<close>

definition entrywise_generator :: "real \<Rightarrow> real \<Rightarrow> real \<Rightarrow> complex list" where
  "entrywise_generator mx my mz =
     map2 (+) (map ((*) (complex_of_real mx)) x_entries)
       (map2 (*) (map ((*) (complex_of_real my)) y_entries)
                 (map ((*) (complex_of_real mz)) z_entries))"

definition rgate_entries :: "env \<Rightarrow> real \<Rightarrow> real \<Rightarrow> real \<Rightarrow> real \<Rightarrow> complex list" where
  "rgate_entries ev theta alpha phi angle_scale =
     (let mx = sin alpha * cos phi; my = sin alpha * sin phi; mz = cos alpha
      in e_expm ev (map ((*) (- \<i> * complex_of_real (theta * angle_scale)))
                      (entrywise_generator mx my mz)))"

text \<open>
  A concrete environment for closed instances: no rounding, a constant random stream,
  a fixed unitary for \<open>rvs\<close>, and for \<open>expm\<close> the closed form of the exponential of a
  matrix \<open>[[0, b], [b, 0]]\<close>.
\<close>

definition expm_antidiagonal :: "complex list \<Rightarrow> complex list" where
  "expm_antidiagonal xs =
     (let b = xs ! 1; c = (exp b + exp (- b)) / 2; d = (exp b - exp (- b)) / 2
      in [c, d, d, c])"

definition sample_env :: env where
  "sample_env =
     \<lparr>e_npdtype = (\<lambda>z. z), e_rand = (\<lambda>og k. 1 / 4), e_rvs = (\<lambda>og k. (swap_entries, 32)),
      e_expm = expm_antidiagonal\<rparr>"

text \<open>
  The names of the fixed gates: the literal matrix of \<open>g\<close> is \<open>_g_matrix\<close>, its
  constructors are \<open>g\<close> and \<open>ggate\<close>.
\<close>

definition fixed_gate_names :: "string list" where
  "fixed_gate_names = [''h'', ''i'', ''x'', ''y'', ''z'', ''cnot'', ''cz'', ''swap'']"

text \<open>An assignment in place to the entries of the buffer at an address.\<close>

definition store_entries :: "addr \<Rightarrow> complex list \<Rightarrow> gstate \<Rightarrow> gstate" where
  "store_entries a xs s = s\<lparr>g_mem := (g_mem s)(a := xs)\<rparr>"


section \<open>Auxiliary lemmas\<close>

subsection \<open>Layers\<close>

lemma invoke_append: "invoke c k h = append_calls c [k] h"
  by (simp add: invoke_def append_calls_def)

lemma append_calls_Nil: "append_calls c [] h = h"
  by (simp add: append_calls_def)

lemma append_calls_twice: "append_calls c ks (append_calls c js h) = append_calls c (js @ ks) h"
  by (simp add: append_calls_def)

lemma nqubits_append_calls: "nqubits (append_calls c ks h c') = nqubits (h c')"
  by (simp add: append_calls_def)

lemma double_gate_f_calls:
  "double_gate_f d1 d2 c q1 q2 a h = (c, append_calls c (sandwich d1 d2 q1 q2 a) h)"
  by (simp add: double_gate_f_def Let_def H_def rx_def rz_def CNOT_def invoke_append
      append_calls_twice append_calls_Nil sandwich_def forward_rotation_def backward_rotation_def)

lemma sandwich_label:
  "sandwich (label b1) (label b2) q1 q2 a = double_gate_sequence b1 b2 q1 q2 a"
  by (cases b1; cases b2)
     (simp_all add: sandwich_def double_gate_sequence_def forward_rotation_def
        backward_rotation_def)

lemma generate_gate_layer_eq:
  "generate_gate_layer sgates gate m = setattr (gate @ ''layer'') (gate_layer_obj sgates gate) m"
  by (simp add: generate_gate_layer_def gate_layer_obj_def)

lemma generate_double_gate_eq:
  "generate_double_gate (a # b # r) m =
     Inr (setattr (a # b # r @ ''gate'') (double_gate_obj a b (a # b # r)) m)"
  by (simp add: generate_double_gate_def double_gate_obj_def)

lemma generate_double_gate_layer_eq:
  "generate_double_gate_layer gates m = setattr (gates @ ''layer'') (double_layer_obj gates) m"
  by (simp add: generate_double_gate_layer_def double_layer_obj_def)

lemma layers_init_eq:
  "layers_init sgates = Inr \<lparr>namespace = loaded_namespace sgates, cset = default_choice sgates\<rparr>"
  by (simp add: layers_init_def empty_module_def product_xyz_def generate_gate_layer_eq
      generate_double_gate_eq generate_double_gate_layer_eq setattr_def set_choice_def
      lookup_global_def loaded_namespace_def default_choice_def pair_bindings_def)

lemma loaded_double_gate:
  "loaded_namespace sgates (label b1 # label b2 # ''gate'') =
     Some (double_gate_obj (label b1) (label b2) [label b1, label b2])"
  by (cases b1; cases b2) (simp_all add: loaded_namespace_def pair_bindings_def)

lemma loaded_double_layer:
  "loaded_namespace sgates (label b1 # label b2 # ''layer'') =
     Some (double_layer_obj [label b1, label b2])"
  by (cases b1; cases b2) (simp_all add: loaded_namespace_def pair_bindings_def)

lemma loaded_gate_layer:
  "g \<in> set [''rx'', ''ry'', ''rz'', ''H''] \<Longrightarrow>
     loaded_namespace sgates (g @ ''layer'') = Some (gate_layer_obj sgates g)"
  by (auto simp add: loaded_namespace_def pair_bindings_def)


lemma gate_layer_fixed_calls:
  "gate_layer_fixed gate c ns h = append_calls c (map (\<lambda>n. Call gate [n] None) ns) h"
  by (induction ns arbitrary: h) (simp_all add: invoke_append append_calls_twice append_calls_Nil)

lemma gate_layer_param_calls:
  "gate_layer_param gate c (Some s) ns h =
     Inr (append_calls c (map (\<lambda>n. Call gate [n] (Some (2 * s))) ns) h)"
  by (induction ns arbitrary: h) (simp_all add: invoke_append append_calls_twice append_calls_Nil)

lemma gate_layer_param_None:
  "gate_layer_param gate c None ns h = (if ns = [] then Inr h else Inl TypeError)"
  by (cases ns) simp_all

lemma getitem2_edge:
  assumes "e \<in> set (edges g)"
  shows "\<exists>d. getitem2 g (fst e) (snd e) = Some d"
proof -
  from assms obtain x where "x \<in> set g" and "fst x = e"
    by (auto simp add: edges_def)
  then have "\<exists>x\<in>set g. fst x = (fst e, snd e) \<or> fst x = (snd e, fst e)"
    by auto
  then have "find (\<lambda>x. fst x = (fst e, snd e) \<or> fst x = (snd e, fst e)) g \<noteq> None"
    unfolding find_None_iff by blast
  then show ?thesis
    by (auto simp add: getitem2_def)
qed

lemma double_gate_layer_loop_calls:
  assumes "namespace m (gates @ ''gate'') = Some fn" and "f_body fn = DoubleGateF d1 d2"
    and "set es \<subseteq> set (edges g)"
  shows "double_gate_layer_loop m gates c s g es h =
           Inr (append_calls c
                  (concat (map (\<lambda>e. sandwich d1 d2 (fst e) (snd e) (- s * edge_weight g e * 2)) es))
                  h)"
  using assms(3)
proof (induction es arbitrary: h)
  case Nil
  show ?case by (simp add: append_calls_Nil)
next
  case (Cons e es)
  then have "e \<in> set (edges g)" and rest: "set es \<subseteq> set (edges g)"
    by simp_all
  then obtain d where d: "getitem2 g (fst e) (snd e) = Some d"
    using getitem2_edge by blast
  have w: "dict_get d ''weight'' 1 = edge_weight g e"
    by (simp add: dict_get_def edge_weight_def d)
  show ?case
    by (simp add: assms(1,2) d w double_gate_f_calls Cons.IH[OF rest] append_calls_twice Let_def)
qed

lemma complete_graph_3: "complete_graph 3 = [((0, 1), []), ((0, 2), []), ((1, 2), [])]"
  by (simp add: complete_graph_def upt_rec)

lemma double_gate_layer_f_calls:
  assumes "namespace m (gates @ ''gate'') = Some fn" and "f_body fn = DoubleGateF d1 d2"
  shows "double_gate_layer_f m gates c s (Some g) h =
           Inr (c, append_calls c
                  (concat (map (\<lambda>e. sandwich d1 d2 (fst e) (snd e) (- s * edge_weight g e * 2))
                     (edges g))) h)"
    and "double_gate_layer_f m gates c s None h =
           double_gate_layer_f m gates c s (Some (complete_graph (nqubits (h c)))) h"
  by (simp_all add: double_gate_layer_f_def double_gate_layer_loop_calls[OF assms])

subsection \<open>Gates\<close>

lemma assign_array_rec:
  "assign_array k sh xs \<lparr>g_attrs = A, g_mem = M, g_next = N, g_rng = R\<rparr> =
     \<lparr>g_attrs = (k, Array \<lparr>a_buf = N, a_shape = sh\<rparr>) # filter (\<lambda>p. fst p \<noteq> k) A,
      g_mem = M(N := xs), g_next = N + 1, g_rng = R\<rparr>"
  by (simp add: assign_array_def new_array_def setattr_g_def)

lemma new_array_rec:
  "new_array sh xs \<lparr>g_attrs = A, g_mem = M, g_next = N, g_rng = R\<rparr> =
     (\<lparr>a_buf = N, a_shape = sh\<rparr>, \<lparr>g_attrs = A, g_mem = M(N := xs), g_next = N + 1, g_rng = R\<rparr>)"
  by (simp add: new_array_def)

lemma setattr_g_rec:
  "setattr_g k v \<lparr>g_attrs = A, g_mem = M, g_next = N, g_rng = R\<rparr> =
     \<lparr>g_attrs = (k, v) # filter (\<lambda>p. fst p \<noteq> k) A, g_mem = M, g_next = N, g_rng = R\<rparr>"
  by (simp add: setattr_g_def)

lemma gates_literals_eq: "gates_literals ev empty_gstate = literal_state ev"
  by (simp add: gates_literals_def empty_gstate_def assign_array_rec Let_def literal_state_def
      eval_nat_numeral)

lemma dir_literal:
  "dir_g (literal_state ev) =
     [''_cnot_matrix'', ''_cz_matrix'', ''_h_matrix'', ''_i_matrix'', ''_swap_matrix'',
      ''_x_matrix'', ''_y_matrix'', ''_z_matrix'', ''minus_state'', ''one_state'',
      ''plus_state'', ''zero_state'']"
  by (simp add: dir_g_def literal_state_def less_eq_char_def less_char_def)

lemma entries_length:
  "length cnot_entries = 16" "length cz_entries = 16" "length swap_entries = 16"
  by (simp_all add: cnot_entries_def cz_entries_def swap_entries_def)

lemma meta_gate_loop_skip:
  "\<not> (endswith nm ''_matrix'' \<and> startswith nm ''_'') \<Longrightarrow>
     meta_gate_loop ev (nm # rest) s = meta_gate_loop ev rest s"
  by auto

lemma meta_gate_loop_bind:
  assumes "endswith nm ''_matrix'' \<and> startswith nm ''_''"
    and "map_of A nm = Some (Array \<lparr>a_buf = b, a_shape = d # ds\<rparr>)"
    and "d = 4 \<longrightarrow> length (M b) = 16"
    and "n = drop 1 (take (length nm - 7) nm)"
    and "p = Partial \<lparr>a_buf = N, a_shape = (if d = 4 then [2, 2, 2, 2] else d # ds)\<rparr> n"
  shows "meta_gate_loop ev (nm # rest) \<lparr>g_attrs = A, g_mem = M, g_next = N, g_rng = R\<rparr> =
           meta_gate_loop ev rest
             \<lparr>g_attrs = (n, p) # filter (\<lambda>q. fst q \<noteq> n)
                                   ((n @ ''gate'', p) # filter (\<lambda>q. fst q \<noteq> n @ ''gate'') A),
              g_mem = M(N := map (e_npdtype ev) (M b)), g_next = N + 1, g_rng = R\<rparr>"
  using assms
  by (simp add: meta_gate_step_def getattr_g_def reshape2222_def astype_def new_array_rec
      setattr_g_rec Let_def)

lemma gates_init_eq: "gates_init ev = Inr (loaded_state ev)"
  unfolding gates_init_def gates_literals_eq meta_gate_def dir_literal
  unfolding literal_state_def
  apply (subst meta_gate_loop_bind, simp add: endswith_def startswith_def, simp, simp add: entries_length, simp, simp)
  apply (simp del: meta_gate_loop.simps)
  apply (subst meta_gate_loop_bind, simp add: endswith_def startswith_def, simp, simp add: entries_length, simp, simp)
  apply (simp del: meta_gate_loop.simps)
  apply (subst meta_gate_loop_bind, simp add: endswith_def startswith_def, simp, simp add: entries_length, simp, simp)
  apply (simp del: meta_gate_loop.simps)
  apply (subst meta_gate_loop_bind, simp add: endswith_def startswith_def, simp, simp add: entries_length, simp, simp)
  apply (simp del: meta_gate_loop.simps)
  apply (subst meta_gate_loop_bind, simp add: endswith_def startswith_def, simp, simp add: entries_length, simp, simp)
  apply (simp del: meta_gate_loop.simps)
  apply (subst meta_gate_loop_bind, simp add: endswith_def startswith_def, simp, simp add: entries_length, simp, simp)
  apply (simp del: meta_gate_loop.simps)
  apply (subst meta_gate_loop_bind, simp add: endswith_def startswith_def, simp, simp add: entries_length, simp, simp)
  apply (simp del: meta_gate_loop.simps)
  apply (subst meta_gate_loop_bind, simp add: endswith_def startswith_def, simp, simp add: entries_length, simp, simp)
  apply (simp del: meta_gate_loop.simps)
  apply (subst meta_gate_loop_skip, simp add: endswith_def startswith_def)
  apply (subst meta_gate_loop_skip, simp add: endswith_def startswith_def)
  apply (subst meta_gate_loop_skip, simp add: endswith_def startswith_def)
  apply (subst meta_gate_loop_skip, simp add: endswith_def startswith_def)
  apply (simp add: loaded_state_def literal_state_def)
  done

lemma frame_refl: "frame s s"
  by (simp add: frame_def)

lemma frame_trans: "frame s s' \<Longrightarrow> frame s' s'' \<Longrightarrow> frame s s''"
  by (auto simp add: frame_def)

lemma frame_new_array: "frame s (snd (new_array sh xs s))"
  by (simp add: frame_def new_array_def)

lemma frame_attrs: "g_mem s' = g_mem s \<Longrightarrow> g_next s' = g_next s \<Longrightarrow> frame s s'"
  by (simp add: frame_def)

lemma frame_setattr_g: "frame s (setattr_g k v s)"
  by (simp add: frame_def setattr_g_def)

lemma frame_seed: "seed_if_truthy seed s = Inr s' \<Longrightarrow> frame s s'"
  by (auto simp add: seed_if_truthy_def np_random_seed_def frame_def
      split: option.splits if_splits)

lemma frame_meta_gate_step: "meta_gate_step ev nm s = Inr s' \<Longrightarrow> frame s s'"
  by (auto simp add: meta_gate_step_def astype_def new_array_def setattr_g_def frame_def Let_def
      split: option.splits gvalue.splits list.splits sum.splits if_splits)

lemma frame_meta_gate_loop: "meta_gate_loop ev nms s = Inr s' \<Longrightarrow> frame s s'"
proof (induction nms arbitrary: s)
  case Nil
  then show ?case by (simp add: frame_refl)
next
  case (Cons nm nms)
  show ?case
  proof (cases "endswith nm ''_matrix'' \<and> startswith nm ''_''")
    case True
    with Cons.prems obtain s1 where s1: "meta_gate_step ev nm s = Inr s1"
      and rest: "meta_gate_loop ev nms s1 = Inr s'"
      by (auto split: sum.splits)
    from frame_meta_gate_step[OF s1] Cons.IH[OF rest] show ?thesis
      by (rule frame_trans)
  next
    case False
    with Cons.prems have "meta_gate_loop ev nms s = Inr s'"
      by auto
    then show ?thesis by (rule Cons.IH)
  qed
qed

lemma frame_rgate: "rgate ev seed angle_scale s = Inr (nd, s') \<Longrightarrow> frame s s'"
  by (auto simp add: rgate_def np_random_rand3_def new_array_def Let_def frame_def
      split: sum.splits prod.splits dest!: frame_seed)

lemma frame_random_two_qubit_gate:
  "random_two_qubit_gate ev seed s = Inr (nd, s') \<Longrightarrow> frame s s'"
  by (auto simp add: random_two_qubit_gate_def unitary_group_rvs4_def deepcopy_def new_array_def
      reshape2222_def Let_def frame_def split: sum.splits prod.splits if_splits dest!: frame_seed)


lemma global_array_cong:
  "g_attrs s' = g_attrs s \<Longrightarrow> g_mem s' = g_mem s \<Longrightarrow> global_array s' k = global_array s k"
  by (simp add: global_array_def getattr_g_def split: option.splits gvalue.splits)

lemma seed_if_truthy_fields:
  "seed_if_truthy seed s = Inr s1 \<Longrightarrow>
     g_attrs s1 = g_attrs s \<and> g_mem s1 = g_mem s \<and> g_next s1 = g_next s"
  by (auto simp add: seed_if_truthy_def np_random_seed_def split: option.splits if_splits)

lemma entrywise_generator_eq:
  "entrywise_generator mx my mz = [complex_of_real mx * 0, complex_of_real mx, complex_of_real mx, 0]"
  by (simp add: entrywise_generator_def x_entries_def y_entries_def z_entries_def)

lemma rgate_generator_table:
  assumes "pauli_table s"
  shows "rgate_generator s mx my mz = Inr ([2, 2], entrywise_generator mx my mz)"
  using assms
  by (simp add: pauli_table_def rgate_generator_def array_mul_def array_add_def scalar_mul_def
      entrywise_generator_def x_entries_def y_entries_def z_entries_def)

lemma rgate_run:
  assumes "pauli_table s" and "seed_if_truthy seed s = Inr s1"
  shows "rgate ev seed angle_scale s =
     Inr (\<lparr>n_tensor = \<lparr>a_buf = g_next s, a_shape = [2, 2]\<rparr>, n_name = None\<rparr>,
          s1\<lparr>g_rng := (g_rng s1)\<lparr>r_drawn := r_drawn (g_rng s1) + 3\<rparr>,
             g_mem := (g_mem s)(g_next s :=
                rgate_entries ev
                  (e_rand ev (r_origin (g_rng s1)) (r_drawn (g_rng s1)) * 2 * pi)
                  (e_rand ev (r_origin (g_rng s1)) (r_drawn (g_rng s1) + 1) * 2 * pi)
                  (e_rand ev (r_origin (g_rng s1)) (r_drawn (g_rng s1) + 2) * 2 * pi)
                  angle_scale),
             g_next := g_next s + 1\<rparr>)"
proof -
  note f = seed_if_truthy_fields[OF assms(2)]
  let ?s2 = "s1\<lparr>g_rng := (g_rng s1)\<lparr>r_drawn := r_drawn (g_rng s1) + 3\<rparr>\<rparr>"
  have "pauli_table ?s2"
    using assms(1) f by (simp add: pauli_table_def global_array_cong[of ?s2 s])
  then have gen: "rgate_generator ?s2 mx my mz = Inr ([2, 2], entrywise_generator mx my mz)"
    for mx my mz
    by (rule rgate_generator_table)
  show ?thesis
    by (simp add: rgate_def assms(2) np_random_rand3_def Let_def gen expm_def scalar_mul_def
        new_array_def rgate_entries_def f)
qed

lemma pauli_table_loaded: "pauli_table (loaded_state ev)"
  by (simp add: pauli_table_def global_array_def getattr_g_def loaded_state_def literal_state_def)

lemma sample_rand_range:
  "\<forall>k. 0 \<le> e_rand sample_env og k \<and> e_rand sample_env og k < 1"
  by (simp add: sample_env_def)

lemma template_run:
  "template m n s =
     (\<lparr>n_tensor = \<lparr>a_buf = g_next s, a_shape = a_shape m\<rparr>, n_name = Some n\<rparr>,
      s\<lparr>g_mem := (g_mem s)(g_next s := g_mem s (a_buf m)), g_next := g_next s + 1\<rparr>)"
  by (simp add: template_def deepcopy_def new_array_def)

lemma frame_meta_gate: "meta_gate ev s = Inr s' \<Longrightarrow> frame s s'"
  unfolding meta_gate_def by (rule frame_meta_gate_loop)

lemma random_two_qubit_gate_run:
  assumes "seed_if_truthy seed s = Inr s1" and "length (fst (e_rvs ev (r_origin (g_rng s1)) (r_drawn (g_rng s1)))) = 16"
  shows "random_two_qubit_gate ev seed s =
     Inr (\<lparr>n_tensor = \<lparr>a_buf = g_next s + 1, a_shape = [2, 2, 2, 2]\<rparr>, n_name = Some ''R2Q''\<rparr>,
          s1\<lparr>g_rng := (g_rng s1)\<lparr>r_drawn := r_drawn (g_rng s1) +
                          snd (e_rvs ev (r_origin (g_rng s1)) (r_drawn (g_rng s1)))\<rparr>,
             g_mem := (g_mem s)
                (g_next s := fst (e_rvs ev (r_origin (g_rng s1)) (r_drawn (g_rng s1))),
                 g_next s + 1 := fst (e_rvs ev (r_origin (g_rng s1)) (r_drawn (g_rng s1)))),
             g_next := g_next s + 2\<rparr>)"
  using assms(2) seed_if_truthy_fields[OF assms(1)]
  by (auto simp add: random_two_qubit_gate_def assms(1) unitary_group_rvs4_def Let_def
      new_array_def reshape2222_def deepcopy_def split: prod.splits)

lemma loaded_constructors:
  "\<forall>g\<in>set fixed_gate_names. \<exists>m t.
      getattr_g (loaded_state ev) (''_'' @ g @ ''_matrix'') = Some (Array t) \<and>
      getattr_g (loaded_state ev) (g @ ''gate'') = Some (Partial m g) \<and>
      getattr_g (loaded_state ev) g = Some (Partial m g) \<and>
      a_buf t < g_next (loaded_state ev) \<and> a_buf m < g_next (loaded_state ev) \<and>
      a_buf m \<noteq> a_buf t \<and>
      g_mem (loaded_state ev) (a_buf m) = map (e_npdtype ev) (g_mem (loaded_state ev) (a_buf t))"
  by (simp add: fixed_gate_names_def getattr_g_def loaded_state_def literal_state_def)

lemma template_twice:
  assumes "a_buf m < g_next s"
  shows "\<exists>nd1 s1 nd2 s2.
        call0 (Partial m n) s = Inr (nd1, s1) \<and> call0 (Partial m n) s1 = Inr (nd2, s2) \<and>
        n_name nd1 = Some n \<and> n_name nd2 = Some n \<and>
        a_shape (n_tensor nd1) = a_shape m \<and> a_shape (n_tensor nd2) = a_shape m \<and>
        g_mem s1 (a_buf (n_tensor nd1)) = g_mem s (a_buf m) \<and>
        g_mem s2 (a_buf (n_tensor nd2)) = g_mem s (a_buf m) \<and>
        g_next s \<le> a_buf (n_tensor nd1) \<and> g_next s \<le> a_buf (n_tensor nd2) \<and>
        a_buf (n_tensor nd1) \<noteq> a_buf (n_tensor nd2) \<and>
        a_buf (n_tensor nd1) \<noteq> a_buf m \<and> a_buf (n_tensor nd2) \<noteq> a_buf m \<and>
        g_attrs s2 = g_attrs s \<and> frame s s1 \<and> frame s s2 \<and>
        (\<forall>xs. frame s (store_entries (a_buf (n_tensor nd1)) xs s2) \<and>
              g_mem (store_entries (a_buf (n_tensor nd1)) xs s2) (a_buf (n_tensor nd2)) =
                g_mem s (a_buf m) \<and>
              g_mem (store_entries (a_buf (n_tensor nd1)) xs s2) (a_buf m) =
                g_mem s (a_buf m))"
  using assms by (auto simp add: template_run frame_def store_entries_def)

lemma random_two_qubit_gate_node:
  assumes "random_two_qubit_gate ev seed s = Inr (nd, s')"
  shows "n_name nd = Some ''R2Q'' \<and> g_next s < a_buf (n_tensor nd) \<and>
         g_mem s' (a_buf (n_tensor nd)) = g_mem s' (g_next s)"
  using assms
  by (auto simp add: random_two_qubit_gate_def unitary_group_rvs4_def deepcopy_def
      new_array_def reshape2222_def Let_def
      split: sum.splits prod.splits if_splits dest!: seed_if_truthy_fields)


section \<open>The claims\<close>

text \<open>
  Claim C1. For every ordered pair of basis labels, the applier that
  \<open>generate_double_gate\<close> builds for the pair (and that the loaded module binds as
  \<open><pair>gate\<close>) appends to the circuit exactly: the basis change on \<open>q1\<close>, the basis
  change on \<open>q2\<close>, \<open>CNOT(q1, q2)\<close>, \<open>rz(q2, theta=angle)\<close>, \<open>CNOT(q1, q2)\<close>, the inverse
  basis change on \<open>q1\<close>, the inverse basis change on \<open>q2\<close>; it touches no other circuit
  and returns the reference it was given.
\<close>

theorem double_gate_applies_sandwich:
  "\<exists>m fn. layers_init sgates = Inr m \<and>
      namespace m ([label b1, label b2] @ ''gate'') = Some fn \<and>
      generate_double_gate [label b1, label b2] m0 =
        Inr (setattr ([label b1, label b2] @ ''gate'') fn m0) \<and>
      call4 fn c q1 q2 angle h =
        Inr (c, append_calls c
                  (basis_change b1 q1 @ basis_change b2 q2 @
                   [Call ''CNOT'' [q1, q2] None, Call ''rz'' [q2] (Some angle),
                    Call ''CNOT'' [q1, q2] None] @
                   basis_undo b1 q1 @ basis_undo b2 q2) h)"
  by (simp add: layers_init_eq loaded_double_gate generate_double_gate_eq setattr_def
      double_gate_obj_def double_gate_f_calls sandwich_label double_gate_sequence_def)

text \<open>
  Claim C2. The two-qubit layer bound for a pair label, called with a circuit, a symbol
  \<open>s\<close> and a graph, appends one double-gate sequence per edge \<open>(u, v)\<close> of the graph, in
  the order of the edges, with angle \<open>- s * weight(u, v) * 2\<close>, where the weight is 1
  when the edge has no \<open>weight\<close> attribute. Without a graph it does what it does with
  the complete graph over the qubits of the circuit. With a graph without edges it
  leaves the store as it is and returns the circuit. On the complete graph over 3
  qubits with symbol 1 it appends three sequences, for the edges (0,1), (0,2), (1,2),
  each with angle \<open>-2\<close>.
\<close>

theorem double_layer_once_per_edge:
  "\<exists>m fn. layers_init sgates = Inr m \<and>
      namespace m ([label b1, label b2] @ ''layer'') = Some fn \<and>
      call_layer sgates m fn c (Some s) (Some g) h =
        Inr (c, append_calls c
                  (concat (map (\<lambda>e. double_gate_sequence b1 b2 (fst e) (snd e)
                                       (- s * edge_weight g e * 2)) (edges g))) h) \<and>
      call_layer sgates m fn c (Some s) None h =
        call_layer sgates m fn c (Some s) (Some (complete_graph (nqubits (h c)))) h \<and>
      call_layer sgates m fn c (Some s) (Some []) h = Inr (c, h) \<and>
      call_layer sgates m fn c (Some 1) (Some (complete_graph 3)) h =
        Inr (c, append_calls c
                  (double_gate_sequence b1 b2 0 1 (- 2) @ double_gate_sequence b1 b2 0 2 (- 2) @
                   double_gate_sequence b1 b2 1 2 (- 2)) h)"
proof -
  let ?m = "\<lparr>namespace = loaded_namespace sgates, cset = default_choice sgates\<rparr>"
  let ?gates = "[label b1, label b2]"
  let ?fn = "double_layer_obj ?gates"
  have g: "namespace ?m (?gates @ ''gate'') = Some (double_gate_obj (label b1) (label b2) ?gates)"
    by (simp add: loaded_double_gate)
  have b: "f_body (double_gate_obj (label b1) (label b2) ?gates) = DoubleGateF (label b1) (label b2)"
    by (simp add: double_gate_obj_def)
  note run = double_gate_layer_f_calls[OF g b]
  have call: "call_layer sgates ?m ?fn c (Some s') g' h' = double_gate_layer_f ?m ?gates c s' g' h'"
    for s' g' h'
    by (simp add: call_layer_def double_layer_obj_def)
  have w3: "edge_weight (complete_graph 3) e = 1" for e
    by (simp add: edge_weight_def getitem2_def complete_graph_3)
  have "layers_init sgates = Inr ?m"
    by (rule layers_init_eq)
  moreover have "namespace ?m (?gates @ ''layer'') = Some ?fn"
    by (simp add: loaded_double_layer)
  moreover have "call_layer sgates ?m ?fn c (Some s) (Some g) h =
        Inr (c, append_calls c
                  (concat (map (\<lambda>e. double_gate_sequence b1 b2 (fst e) (snd e)
                                       (- s * edge_weight g e * 2)) (edges g))) h)"
    unfolding call run(1) by (simp add: sandwich_label)
  moreover have "call_layer sgates ?m ?fn c (Some s) None h =
        call_layer sgates ?m ?fn c (Some s) (Some (complete_graph (nqubits (h c)))) h"
    unfolding call by (rule run(2))
  moreover have "call_layer sgates ?m ?fn c (Some s) (Some []) h = Inr (c, h)"
    unfolding call run(1) by (simp add: edges_def append_calls_Nil)
  moreover have "call_layer sgates ?m ?fn c (Some 1) (Some (complete_graph 3)) h =
        Inr (c, append_calls c
                  (double_gate_sequence b1 b2 0 1 (- 2) @ double_gate_sequence b1 b2 0 2 (- 2) @
                   double_gate_sequence b1 b2 1 2 (- 2)) h)"
    unfolding call run(1) w3 by (simp add: sandwich_label edges_def complete_graph_3)
  ultimately show ?thesis
    by blast
qed

text \<open>
  Claim C3. With the table of Pauli matrices intact, \<open>rgate\<close> takes the next three
  numbers of the random source (after the seeding step), multiplies each by \<open>2 * pi\<close>
  to get \<open>theta\<close>, \<open>alpha\<close>, \<open>phi\<close> (all in \<open>[0, 2 * pi)\<close> when the source yields numbers
  in \<open>[0, 1)\<close>), and returns an unnamed node whose 2 by 2 tensor is \<open>expm\<close> of
  \<open>-i * (theta * angle_scale)\<close> times the generator
  \<open>mx*X + my*Y*mz*Z\<close> with \<open>mx = sin alpha * cos phi\<close>, \<open>my = sin alpha * sin phi\<close>,
  \<open>mz = cos alpha\<close>. The Y and Z terms are multiplied, entry by entry, not added; that
  product has no non-zero entry, so the generator is \<open>mx*X\<close>.
\<close>

theorem rgate_entrywise_product:
  assumes "pauli_table s" and "seed_if_truthy seed s = Inr s1"
  shows "(\<exists>nd s' theta alpha phi.
      theta = e_rand ev (r_origin (g_rng s1)) (r_drawn (g_rng s1)) * 2 * pi \<and>
      alpha = e_rand ev (r_origin (g_rng s1)) (r_drawn (g_rng s1) + 1) * 2 * pi \<and>
      phi = e_rand ev (r_origin (g_rng s1)) (r_drawn (g_rng s1) + 2) * 2 * pi \<and>
      rgate ev seed angle_scale s = Inr (nd, s') \<and>
      n_name nd = None \<and> a_shape (n_tensor nd) = [2, 2] \<and>
      g_mem s' (a_buf (n_tensor nd)) =
        e_expm ev (map ((*) (- \<i> * complex_of_real (theta * angle_scale)))
                     (entrywise_generator (sin alpha * cos phi) (sin alpha * sin phi) (cos alpha))) \<and>
      ((\<forall>k. 0 \<le> e_rand ev (r_origin (g_rng s1)) k \<and> e_rand ev (r_origin (g_rng s1)) k < 1) \<longrightarrow>
         0 \<le> theta \<and> theta < 2 * pi \<and> 0 \<le> alpha \<and> alpha < 2 * pi \<and> 0 \<le> phi \<and> phi < 2 * pi)) \<and>
    entrywise_generator mx my mz =
      map2 (+) (map ((*) (complex_of_real mx)) x_entries)
        (map2 (*) (map ((*) (complex_of_real my)) y_entries)
                  (map ((*) (complex_of_real mz)) z_entries)) \<and>
    map2 (*) (map ((*) (complex_of_real my)) y_entries)
             (map ((*) (complex_of_real mz)) z_entries) = [0, 0, 0, 0] \<and>
    entrywise_generator mx my mz = [0, complex_of_real mx, complex_of_real mx, 0]"
proof -
  have "map2 (*) (map ((*) (complex_of_real my)) y_entries)
                  (map ((*) (complex_of_real mz)) z_entries) = [0, 0, 0, 0]"
    by (simp add: y_entries_def z_entries_def)
  moreover have "entrywise_generator mx my mz = [0, complex_of_real mx, complex_of_real mx, 0]"
    by (simp add: entrywise_generator_eq)
  ultimately show ?thesis
    by (simp add: rgate_run[OF assms] rgate_entries_def Let_def entrywise_generator_def)
qed

text \<open>An instance of C3 on the freshly loaded module, without a seed.\<close>

theorem rgate_entrywise_product_witness:
  "pauli_table (projr (gates_init sample_env)) \<and>
   seed_if_truthy None (projr (gates_init sample_env)) = Inr (projr (gates_init sample_env)) \<and>
   (\<forall>k. 0 \<le> e_rand sample_env Entropy k \<and> e_rand sample_env Entropy k < 1) \<and>
   (\<exists>nd s'. rgate sample_env None 1 (projr (gates_init sample_env)) = Inr (nd, s') \<and>
      n_name nd = None \<and> a_shape (n_tensor nd) = [2, 2])"
proof -
  let ?s = "projr (gates_init sample_env)"
  have s: "?s = loaded_state sample_env"
    by (simp add: gates_init_eq)
  have a: "pauli_table ?s"
    unfolding s by (rule pauli_table_loaded)
  have b: "seed_if_truthy None ?s = Inr ?s"
    by (simp add: seed_if_truthy_def)
  from rgate_entrywise_product [OF a b, where ev = sample_env and angle_scale = 1]
  have "\<exists>nd s'. rgate sample_env None 1 ?s = Inr (nd, s') \<and>
      n_name nd = None \<and> a_shape (n_tensor nd) = [2, 2]"
    by blast
  with a b sample_rand_range[of Entropy] show ?thesis
    by blast
qed

text \<open>
  Claim C4 (a supplied seed, 0 included, seeds the random source before any draw). The
  code at seed 0: the seeding step leaves the state as it is, and \<open>rgate\<close> and
  \<open>random_two_qubit_gate\<close> do exactly what they do without a seed. On the freshly
  loaded module the random source is still unseeded after the call with seed 0, while
  seed 7 reseeds it.
\<close>

theorem seed_zero_not_seeded:
  "seed_if_truthy (Some 0) s = Inr s \<and>
   rgate ev (Some 0) angle_scale s = rgate ev None angle_scale s \<and>
   random_two_qubit_gate ev (Some 0) s = random_two_qubit_gate ev None s \<and>
   map_sum id (g_rng \<circ> snd) (rgate sample_env (Some 0) 1 (projr (gates_init sample_env))) =
     Inr \<lparr>r_origin = Entropy, r_drawn = 3\<rparr> \<and>
   map_sum id (g_rng \<circ> snd) (rgate sample_env (Some 7) 1 (projr (gates_init sample_env))) =
     Inr \<lparr>r_origin = Seeded 7, r_drawn = 3\<rparr> \<and>
   map_sum id (g_rng \<circ> snd)
       (random_two_qubit_gate sample_env (Some 0) (projr (gates_init sample_env))) =
     Inr \<lparr>r_origin = Entropy, r_drawn = 32\<rparr> \<and>
   map_sum id (g_rng \<circ> snd)
       (random_two_qubit_gate sample_env (Some 7) (projr (gates_init sample_env))) =
     Inr \<lparr>r_origin = Seeded 7, r_drawn = 32\<rparr>"
proof -
  let ?s = "loaded_state sample_env"
  have s0: "seed_if_truthy (Some 0) t = Inr t" for t
    by (simp add: seed_if_truthy_def)
  have s7: "seed_if_truthy (Some 7) ?s = Inr (?s\<lparr>g_rng := \<lparr>r_origin = Seeded 7, r_drawn = 0\<rparr>\<rparr>)"
    by (simp add: seed_if_truthy_def np_random_seed_def)
  have rng: "g_rng ?s = \<lparr>r_origin = Entropy, r_drawn = 0\<rparr>"
    by (simp add: loaded_state_def)
  have rvs: "e_rvs sample_env og k = (swap_entries, 32)" for og k
    by (simp add: sample_env_def)
  have len: "length swap_entries = 16"
    by (simp add: swap_entries_def)
  have a: "rgate ev (Some 0) angle_scale s = rgate ev None angle_scale s"
    by (simp add: rgate_def seed_if_truthy_def)
  have b: "random_two_qubit_gate ev (Some 0) s = random_two_qubit_gate ev None s"
    by (simp add: random_two_qubit_gate_def seed_if_truthy_def)
  have c: "map_sum id (g_rng \<circ> snd) (rgate sample_env (Some 0) 1 ?s) =
     Inr \<lparr>r_origin = Entropy, r_drawn = 3\<rparr>"
    by (simp add: rgate_run[OF pauli_table_loaded s0] rng)
  have d: "map_sum id (g_rng \<circ> snd) (rgate sample_env (Some 7) 1 ?s) =
     Inr \<lparr>r_origin = Seeded 7, r_drawn = 3\<rparr>"
    by (simp add: rgate_run[OF pauli_table_loaded s7])
  have e: "map_sum id (g_rng \<circ> snd) (random_two_qubit_gate sample_env (Some 0) ?s) =
     Inr \<lparr>r_origin = Entropy, r_drawn = 32\<rparr>"
    by (subst random_two_qubit_gate_run[OF s0]) (simp_all add: rvs len rng)
  have f: "map_sum id (g_rng \<circ> snd) (random_two_qubit_gate sample_env (Some 7) ?s) =
     Inr \<lparr>r_origin = Seeded 7, r_drawn = 32\<rparr>"
    by (subst random_two_qubit_gate_run[OF s7]) (simp_all add: rvs len)
  show ?thesis
    using a b c d e f by (simp add: gates_init_eq s0)
qed

text \<open>
  Claim C5. The layer that \<open>generate_gate_layer\<close> builds for a gate name calls the
  method of that name once for every qubit index \<open>0 .. nqubits - 1\<close>, in order: with no
  \<open>theta\<close> when the lower-cased name is in \<open>Circuit.sgates\<close>, and with
  \<open>theta = 2 * symbol\<close> otherwise (where a missing symbol raises \<open>TypeError\<close> as soon
  as there is a qubit); it returns the reference it was given. When \<open>h\<close> is in
  \<open>Circuit.sgates\<close>, the layer \<open>Hlayer\<close> of the loaded module on a 3-qubit circuit
  appends exactly \<open>H(0), H(1), H(2)\<close>.
\<close>

theorem single_layer_every_qubit:
  "\<exists>fn. namespace (generate_gate_layer sgates gate m) (gate @ ''layer'') = Some fn \<and>
      call_layer sgates m' fn c symbol g h =
        (if lower gate \<in> set sgates then
           Inr (c, append_calls c (map (\<lambda>n. Call gate [n] None) [0..<nqubits (h c)]) h)
         else
           (case symbol of
              Some s \<Rightarrow>
                Inr (c, append_calls c (map (\<lambda>n. Call gate [n] (Some (2 * s)))
                                          [0..<nqubits (h c)]) h)
            | None \<Rightarrow> if nqubits (h c) = 0 then Inr (c, h) else Inl TypeError)) \<and>
      (''h'' \<in> set sgates \<and> nqubits (h c) = 3 \<longrightarrow>
         (\<exists>m0 hl. layers_init sgates = Inr m0 \<and> namespace m0 ''Hlayer'' = Some hl \<and>
            call_layer sgates m0 hl c symbol g h =
              Inr (c, append_calls c
                        [Call ''H'' [0] None, Call ''H'' [1] None, Call ''H'' [2] None] h)))"
proof -
  have run: "call_layer sgates mm (gate_layer_obj sgates gt) c symbol g h =
        (if lower gt \<in> set sgates then
           Inr (c, append_calls c (map (\<lambda>n. Call gt [n] None) [0..<nqubits (h c)]) h)
         else
           (case symbol of
              Some s \<Rightarrow>
                Inr (c, append_calls c (map (\<lambda>n. Call gt [n] (Some (2 * s)))
                                          [0..<nqubits (h c)]) h)
            | None \<Rightarrow> if nqubits (h c) = 0 then Inr (c, h) else Inl TypeError))" for mm gt
    by (cases symbol)
       (simp_all add: call_layer_def gate_layer_obj_def gate_layer_f_def gate_layer_fixed_calls
          gate_layer_param_calls gate_layer_param_None)
  have lo: "lower ''H'' = ''h''"
    by (simp add: lower_def lower_char_def)
  have hl: "loaded_namespace sgates ''Hlayer'' = Some (gate_layer_obj sgates ''H'')"
    using loaded_gate_layer[of "''H''" sgates] by simp
  have three: "[0..<3] = [0, 1, 2]"
    by (simp add: upt_rec)
  show ?thesis
    by (simp add: generate_gate_layer_eq setattr_def run layers_init_eq hl lo three
          del: upt_Suc)
qed

text \<open>An instance of C5 with the lower-case gate list and a fresh 3-qubit circuit.\<close>

theorem single_layer_every_qubit_witness:
  "''h'' \<in> set lowercase_sgates \<and> nqubits (blank_store 3 0) = 3 \<and>
   (\<exists>m0 hl. layers_init lowercase_sgates = Inr m0 \<and> namespace m0 ''Hlayer'' = Some hl \<and>
      call_layer lowercase_sgates m0 hl 0 None None (blank_store 3) =
        Inr (0, append_calls 0
                  [Call ''H'' [0] None, Call ''H'' [1] None, Call ''H'' [2] None]
                  (blank_store 3)))"
proof -
  have a: "''h'' \<in> set lowercase_sgates \<and> nqubits (blank_store 3 0) = 3"
    by (simp add: lowercase_sgates_def blank_store_def)
  from single_layer_every_qubit [where sgates = lowercase_sgates and h = "blank_store 3"
      and c = 0 and symbol = None and g = None and gate = "''H''" and m = empty_module
      and m' = empty_module] a
  show ?thesis
    by blast
qed

text \<open>
  Claim C6 (the trainable flag is false exactly for the layers that apply their gate
  without a parameter; \<open>Hlayer\<close> is non-trainable). The code at the lower-case gate
  list: \<open>Hlayer\<close> applies \<open>H\<close> to the three qubits with no parameter, and its
  \<open>__trainable__\<close> attribute is \<open>True\<close>, because the attribute tests \<open>gate\<close> where the
  body tests \<open>gate.lower()\<close>.
\<close>

theorem H_layer_marked_trainable:
  "\<exists>m hl. layers_init lowercase_sgates = Inr m \<and> namespace m ''Hlayer'' = Some hl \<and>
      f_trainable hl = Some True \<and>
      call_layer lowercase_sgates m hl 0 None None (blank_store 3) =
        Inr (0, append_calls 0
                  [Call ''H'' [0] None, Call ''H'' [1] None, Call ''H'' [2] None]
                  (blank_store 3))"
proof -
  have hl: "loaded_namespace lowercase_sgates ''Hlayer'' =
        Some (gate_layer_obj lowercase_sgates ''H'')"
    using loaded_gate_layer[of "''H''" lowercase_sgates] by simp
  have t: "f_trainable (gate_layer_obj lowercase_sgates ''H'') = Some True"
    by (simp add: gate_layer_obj_def lowercase_sgates_def)
  have lo: "lower ''H'' \<in> set lowercase_sgates"
    by (simp add: lower_def lower_char_def lowercase_sgates_def)
  have three: "[0..<3] = [0, 1, 2]"
    by (simp add: upt_rec)
  have run: "call_layer lowercase_sgates m (gate_layer_obj lowercase_sgates ''H'') 0 None None
        (blank_store 3) =
        Inr (0, append_calls 0
                  [Call ''H'' [0] None, Call ''H'' [1] None, Call ''H'' [2] None]
                  (blank_store 3))" for m
    by (simp add: call_layer_def gate_layer_obj_def gate_layer_f_def lo gate_layer_fixed_calls)
       (simp add: blank_store_def three)
  show ?thesis
    by (simp add: layers_init_eq hl t run)
qed

text \<open>
  Claim C7. Loading the module binds \<open>Hlayer\<close>, \<open>rxlayer\<close>, \<open>rzlayer\<close> and \<open>zzlayer\<close> to
  the layers generated for \<open>H\<close>, \<open>rx\<close>, \<open>rz\<close> and \<open>zz\<close>. Whatever the setter was
  called with before, \<open>set_choice()\<close> with no argument makes the choice set exactly
  these four, in this order, and the getter then returns them; and after a call of the
  setter with a non-empty list the getter returns that list.
\<close>

theorem set_choice_default:
  "\<exists>m hl xl zl zzl. layers_init sgates = Inr m \<and>
      namespace m ''Hlayer'' = Some hl \<and> f_body hl = GateLayerF ''H'' \<and>
      namespace m ''rxlayer'' = Some xl \<and> f_body xl = GateLayerF ''rx'' \<and>
      namespace m ''rzlayer'' = Some zl \<and> f_body zl = GateLayerF ''rz'' \<and>
      namespace m ''zzlayer'' = Some zzl \<and> f_body zzl = DoubleGateLayerF ''zz'' \<and>
      get_choice m = [hl, xl, zl, zzl] \<and>
      (\<forall>l1. \<exists>m1. set_choice l1 m = Inr m1 \<and>
         (\<exists>m2. set_choice None m1 = Inr m2 \<and> get_choice m2 = [hl, xl, zl, zzl]) \<and>
         (\<forall>x xs. \<exists>m2. set_choice (Some (x # xs)) m1 = Inr m2 \<and> get_choice m2 = x # xs))"
proof -
  let ?m = "\<lparr>namespace = loaded_namespace sgates, cset = default_choice sgates\<rparr>"
  have names:
    "loaded_namespace sgates ''Hlayer'' = Some (gate_layer_obj sgates ''H'')"
    "loaded_namespace sgates ''rxlayer'' = Some (gate_layer_obj sgates ''rx'')"
    "loaded_namespace sgates ''rzlayer'' = Some (gate_layer_obj sgates ''rz'')"
    "loaded_namespace sgates ''zzlayer'' = Some (double_layer_obj ''zz'')"
    using loaded_gate_layer[of "''H''" sgates] loaded_gate_layer[of "''rx''" sgates]
      loaded_gate_layer[of "''rz''" sgates] loaded_double_layer[of sgates BZ BZ]
    by simp_all
  have dflt: "set_choice l mm = Inr (mm\<lparr>cset := default_choice sgates\<rparr>)"
    if "namespace mm = loaded_namespace sgates" and "l = None \<or> l = Some []" for l mm
    using that by (auto simp add: set_choice_def lookup_global_def names default_choice_def)
  have given: "set_choice (Some (x # xs)) mm = Inr (mm\<lparr>cset := x # xs\<rparr>)" for x xs mm
    by (simp add: set_choice_def)
  have step: "\<exists>m1. set_choice l1 ?m = Inr m1 \<and> namespace m1 = loaded_namespace sgates" for l1
  proof (cases "l1 = None \<or> l1 = Some []")
    case True
    then show ?thesis using dflt[of ?m l1] by simp
  next
    case False
    then obtain x xs where "l1 = Some (x # xs)"
      by (cases l1; cases "the l1") auto
    then show ?thesis using given by simp
  qed
  have "\<exists>m1. set_choice l1 ?m = Inr m1 \<and>
         (\<exists>m2. set_choice None m1 = Inr m2 \<and> get_choice m2 = default_choice sgates) \<and>
         (\<forall>x xs. \<exists>m2. set_choice (Some (x # xs)) m1 = Inr m2 \<and> get_choice m2 = x # xs)" for l1
  proof -
    from step obtain m1 where m1: "set_choice l1 ?m = Inr m1"
      and ns: "namespace m1 = loaded_namespace sgates"
      by blast
    show ?thesis
      using m1 dflt[OF ns, of None] given by (simp add: get_choice_def)
  qed
  then show ?thesis
    by (simp add: layers_init_eq names get_choice_def)
       (simp add: default_choice_def gate_layer_obj_def double_layer_obj_def)
qed

text \<open>
  Claim C8, as stated, fails for the empty list: \<open>set_choice([])\<close> on the loaded module
  does what \<open>set_choice()\<close> does, and the getter does not return the empty list
  afterwards.
\<close>

theorem set_choice_empty_list_reset:
  "map_sum id get_choice (set_choice (Some []) (projr (layers_init lowercase_sgates))) \<noteq> Inr [] \<and>
   set_choice (Some []) (projr (layers_init lowercase_sgates)) =
     set_choice None (projr (layers_init lowercase_sgates))"
proof -
  have names:
    "loaded_namespace lowercase_sgates ''Hlayer'' = Some (gate_layer_obj lowercase_sgates ''H'')"
    "loaded_namespace lowercase_sgates ''rxlayer'' = Some (gate_layer_obj lowercase_sgates ''rx'')"
    "loaded_namespace lowercase_sgates ''rzlayer'' = Some (gate_layer_obj lowercase_sgates ''rz'')"
    "loaded_namespace lowercase_sgates ''zzlayer'' = Some (double_layer_obj ''zz'')"
    using loaded_gate_layer[of "''H''" lowercase_sgates]
      loaded_gate_layer[of "''rx''" lowercase_sgates]
      loaded_gate_layer[of "''rz''" lowercase_sgates]
      loaded_double_layer[of lowercase_sgates BZ BZ]
    by simp_all
  show ?thesis
    by (simp add: layers_init_eq set_choice_def lookup_global_def names get_choice_def)
qed

text \<open>
  Claim C8, amended. For every non-empty list, \<open>set_choice\<close> installs exactly that
  list, unchecked, and the getter returns it; the empty list is treated like a missing
  argument.
\<close>

theorem set_choice_nonempty_verbatim:
  "set_choice (Some (x # xs)) m = Inr (m\<lparr>cset := x # xs\<rparr>) \<and>
   get_choice (m\<lparr>cset := x # xs\<rparr>) = x # xs \<and>
   set_choice (Some []) m = set_choice None m"
  by (simp add: set_choice_def get_choice_def)

text \<open>
  Claim C9. In the loaded module every fixed gate \<open>g\<close> has its constructors \<open>g\<close> and
  \<open>ggate\<close> bound to a \<open>partial(template, m, g)\<close>, where \<open>m\<close> is a converted copy of
  \<open>_g_matrix\<close> on a buffer of its own.
  Calling a fixed-gate constructor \<open>partial(template, m, n)\<close> twice, for an
  array \<open>m\<close> that exists, returns two nodes named \<open>n\<close> with the shape of \<open>m\<close>, each
  on a buffer of its own that did not exist before (so distinct from each other, from
  \<open>m\<close> and from every matrix of the table) and holds the entries of \<open>m\<close>; no buffer
  that existed is changed, no binding is changed, and overwriting the entries of the
  first node changes neither the second node nor \<open>m\<close> nor any other existing buffer.
  The other operations of the module (\<open>meta_gate\<close>, \<open>rgate\<close>,
  \<open>random_two_qubit_gate\<close>) change no existing buffer either, and the node of
  \<open>random_two_qubit_gate\<close> is a copy on a buffer other than that of the sampled matrix.
\<close>

theorem fixed_gate_node_independent_copy:
  "(\<exists>s0. gates_init ev = Inr s0 \<and>
      (\<forall>g\<in>set fixed_gate_names. \<exists>m t.
         getattr_g s0 (''_'' @ g @ ''_matrix'') = Some (Array t) \<and>
         getattr_g s0 (g @ ''gate'') = Some (Partial m g) \<and>
         getattr_g s0 g = Some (Partial m g) \<and>
         a_buf t < g_next s0 \<and> a_buf m < g_next s0 \<and> a_buf m \<noteq> a_buf t \<and>
         g_mem s0 (a_buf m) = map (e_npdtype ev) (g_mem s0 (a_buf t)))) \<and>
   (a_buf m < g_next s \<longrightarrow>
     (\<exists>nd1 s1 nd2 s2.
        call0 (Partial m n) s = Inr (nd1, s1) \<and> call0 (Partial m n) s1 = Inr (nd2, s2) \<and>
        n_name nd1 = Some n \<and> n_name nd2 = Some n \<and>
        a_shape (n_tensor nd1) = a_shape m \<and> a_shape (n_tensor nd2) = a_shape m \<and>
        g_mem s1 (a_buf (n_tensor nd1)) = g_mem s (a_buf m) \<and>
        g_mem s2 (a_buf (n_tensor nd2)) = g_mem s (a_buf m) \<and>
        g_next s \<le> a_buf (n_tensor nd1) \<and> g_next s \<le> a_buf (n_tensor nd2) \<and>
        a_buf (n_tensor nd1) \<noteq> a_buf (n_tensor nd2) \<and>
        a_buf (n_tensor nd1) \<noteq> a_buf m \<and> a_buf (n_tensor nd2) \<noteq> a_buf m \<and>
        g_attrs s2 = g_attrs s \<and> frame s s1 \<and> frame s s2 \<and>
        (\<forall>xs. frame s (store_entries (a_buf (n_tensor nd1)) xs s2) \<and>
              g_mem (store_entries (a_buf (n_tensor nd1)) xs s2) (a_buf (n_tensor nd2)) =
                g_mem s (a_buf m) \<and>
              g_mem (store_entries (a_buf (n_tensor nd1)) xs s2) (a_buf m) =
                g_mem s (a_buf m)))) \<and>
   (meta_gate ev s = Inr s' \<longrightarrow> frame s s') \<and>
   (rgate ev seed angle_scale s = Inr (nd, s') \<longrightarrow> frame s s') \<and>
   (random_two_qubit_gate ev seed s = Inr (nd, s') \<longrightarrow>
      frame s s' \<and> n_name nd = Some ''R2Q'' \<and> g_next s < a_buf (n_tensor nd) \<and>
      g_mem s' (a_buf (n_tensor nd)) = g_mem s' (g_next s))"
proof -
  have table: "\<exists>s0. gates_init ev = Inr s0 \<and>
      (\<forall>g\<in>set fixed_gate_names. \<exists>m t.
         getattr_g s0 (''_'' @ g @ ''_matrix'') = Some (Array t) \<and>
         getattr_g s0 (g @ ''gate'') = Some (Partial m g) \<and>
         getattr_g s0 g = Some (Partial m g) \<and>
         a_buf t < g_next s0 \<and> a_buf m < g_next s0 \<and> a_buf m \<noteq> a_buf t \<and>
         g_mem s0 (a_buf m) = map (e_npdtype ev) (g_mem s0 (a_buf t)))"
    using gates_init_eq[of ev] loaded_constructors[of ev] by simp
  have rest: "(meta_gate ev s = Inr s' \<longrightarrow> frame s s') \<and>
   (rgate ev seed angle_scale s = Inr (nd, s') \<longrightarrow> frame s s') \<and>
   (random_two_qubit_gate ev seed s = Inr (nd, s') \<longrightarrow>
      frame s s' \<and> n_name nd = Some ''R2Q'' \<and> g_next s < a_buf (n_tensor nd) \<and>
      g_mem s' (a_buf (n_tensor nd)) = g_mem s' (g_next s))"
    using frame_meta_gate[of ev s s'] frame_rgate[of ev seed angle_scale s nd s']
      frame_random_two_qubit_gate[of ev seed s nd s']
      random_two_qubit_gate_node[of ev seed s nd s']
    by blast
  show ?thesis
    by (intro conjI impI table template_twice conjunct1[OF rest]
          conjunct1[OF conjunct2[OF rest], rule_format]
          conjunct2[OF conjunct2[OF rest], rule_format]) simp_all
qed

text \<open>
  An instance of C9 on the freshly loaded module: the constructor bound as \<open>xgate\<close>,
  and successful runs of the three other operations.
\<close>

theorem fixed_gate_node_independent_copy_witness:
  "getattr_g (projr (gates_init sample_env)) ''xgate'' =
     Some (Partial \<lparr>a_buf = 17, a_shape = [2, 2]\<rparr> ''x'') \<and>
   17 < g_next (projr (gates_init sample_env)) \<and>
   (\<exists>nd1 s1 nd2 s2.
      call0 (Partial \<lparr>a_buf = 17, a_shape = [2, 2]\<rparr> ''x'') (projr (gates_init sample_env)) =
        Inr (nd1, s1) \<and>
      call0 (Partial \<lparr>a_buf = 17, a_shape = [2, 2]\<rparr> ''x'') s1 = Inr (nd2, s2) \<and>
      a_buf (n_tensor nd1) \<noteq> a_buf (n_tensor nd2) \<and>
      g_mem s1 (a_buf (n_tensor nd1)) = x_entries \<and>
      g_mem s2 (a_buf (n_tensor nd2)) = x_entries \<and>
      frame (projr (gates_init sample_env)) s2) \<and>
   (\<exists>s'. meta_gate sample_env (gates_literals sample_env empty_gstate) = Inr s' \<and>
      frame (gates_literals sample_env empty_gstate) s') \<and>
   (\<exists>nd s'. rgate sample_env None 1 (projr (gates_init sample_env)) = Inr (nd, s') \<and>
      frame (projr (gates_init sample_env)) s') \<and>
   (\<exists>nd s'. random_two_qubit_gate sample_env None (projr (gates_init sample_env)) = Inr (nd, s') \<and>
      frame (projr (gates_init sample_env)) s' \<and> n_name nd = Some ''R2Q'')"
proof -
  let ?S = "projr (gates_init sample_env)"
  let ?L = "gates_literals sample_env empty_gstate"
  let ?m = "\<lparr>a_buf = 17, a_shape = [2, 2]\<rparr>"
  have S: "?S = loaded_state sample_env"
    by (simp add: gates_init_eq)
  have bound: "getattr_g ?S ''xgate'' = Some (Partial ?m ''x'')"
    unfolding S by (simp add: getattr_g_def loaded_state_def)
  have alloc: "a_buf ?m < g_next ?S"
    unfolding S by (simp add: loaded_state_def)
  have entries: "g_mem ?S (a_buf ?m) = x_entries"
    unfolding S by (simp add: loaded_state_def sample_env_def)
  have none: "seed_if_truthy None ?S = Inr ?S"
    by (simp add: seed_if_truthy_def)
  have rvs: "length (fst (e_rvs sample_env (r_origin (g_rng ?S)) (r_drawn (g_rng ?S)))) = 16"
    by (simp add: sample_env_def swap_entries_def)
  have m: "meta_gate sample_env ?L = Inr ?S"
    using gates_init_eq[of sample_env] by (simp add: gates_init_def)
  obtain nd s' where r: "rgate sample_env None 1 ?S = Inr (nd, s')"
    using rgate_run[OF _ none, of sample_env 1] pauli_table_loaded[of sample_env] S by simp
  obtain nd' s'' where q: "random_two_qubit_gate sample_env None ?S = Inr (nd', s'')"
    using random_two_qubit_gate_run[OF none rvs] by simp
  have 1: "\<exists>nd1 s1 nd2 s2.
      call0 (Partial ?m ''x'') ?S = Inr (nd1, s1) \<and> call0 (Partial ?m ''x'') s1 = Inr (nd2, s2) \<and>
      a_buf (n_tensor nd1) \<noteq> a_buf (n_tensor nd2) \<and>
      g_mem s1 (a_buf (n_tensor nd1)) = x_entries \<and>
      g_mem s2 (a_buf (n_tensor nd2)) = x_entries \<and> frame ?S s2"
    using fixed_gate_node_independent_copy [where m = ?m and s = ?S and n = "''x''"] alloc
    unfolding entries by blast
  have 2: "frame ?L ?S"
    using fixed_gate_node_independent_copy [where ev = sample_env and s = ?L and s' = ?S] m
    by blast
  have 3: "frame ?S s'"
    using fixed_gate_node_independent_copy
      [where ev = sample_env and s = ?S and s' = s' and nd = nd and seed = None
        and angle_scale = 1] r
    by blast
  have 4: "frame ?S s'' \<and> n_name nd' = Some ''R2Q''"
    using fixed_gate_node_independent_copy
      [where ev = sample_env and s = ?S and s' = s'' and nd = nd' and seed = None] q
    by blast
  from alloc have alloc': "17 < g_next ?S" by simp
  show ?thesis
    using bound alloc' 1 2 3 4 m r q by blast
qed

text \<open>
  Claim C10, as stated, fails: constructing an applier for the label \<open>ab\<close> raises
  nothing. The applier is built and bound as \<open>abgate\<close>, and calling it performs the
  CNOT, rz, CNOT core with no basis change on either qubit.
\<close>

theorem unknown_label_accepted:
  "generate_double_gate ''ab'' empty_module =
     Inr (setattr ''abgate''
            \<lparr>f_body = DoubleGateF CHR ''a'' CHR ''b'', f_doc = ''abgate'', f_repr = None,
             f_trainable = None\<rparr> empty_module) \<and>
   double_gate_f CHR ''a'' CHR ''b'' 0 0 1 (1 / 2) (blank_store 2) =
     (0, append_calls 0
           [Call ''CNOT'' [0, 1] None, Call ''rz'' [1] (Some (1 / 2)), Call ''CNOT'' [0, 1] None]
           (blank_store 2))"
  by (simp add: generate_double_gate_def double_gate_f_calls sandwich_def forward_rotation_def
      backward_rotation_def)

text \<open>
  Claim C10, amended. \<open>generate_double_gate\<close> validates nothing: it fails only on a
  label shorter than two characters (\<open>IndexError\<close>), and for every longer label it
  succeeds and binds an applier made from the first two characters \<open>d1\<close>, \<open>d2\<close>,
  whatever they are. That applier appends the rotation of \<open>d1\<close> on \<open>q1\<close>, the rotation
  of \<open>d2\<close> on \<open>q2\<close>, \<open>CNOT(q1, q2)\<close>, \<open>rz(q2, theta=angle)\<close>, \<open>CNOT(q1, q2)\<close>, the
  inverse rotation of \<open>d1\<close> on \<open>q1\<close> and the inverse rotation of \<open>d2\<close> on \<open>q2\<close>, where
  the rotation of a basis label is its basis change and the rotation of every character
  other than \<open>x\<close> and \<open>y\<close> is empty, exactly like that of \<open>z\<close>. In particular two
  characters outside \<open>x\<close>, \<open>y\<close> give the bare CNOT, rz, CNOT core.
\<close>

theorem double_gate_any_label:
  "generate_double_gate [] m = Inl IndexError \<and>
   generate_double_gate [d1] m = Inl IndexError \<and>
   generate_double_gate (d1 # d2 # rest) m =
     Inr (setattr (d1 # d2 # rest @ ''gate'')
            \<lparr>f_body = DoubleGateF d1 d2, f_doc = d1 # d2 # rest @ ''gate'', f_repr = None,
             f_trainable = None\<rparr> m) \<and>
   call4 \<lparr>f_body = DoubleGateF d1 d2, f_doc = d1 # d2 # rest @ ''gate'', f_repr = None,
          f_trainable = None\<rparr> c q1 q2 angle h =
     Inr (double_gate_f d1 d2 c q1 q2 angle h) \<and>
   double_gate_f d1 d2 c q1 q2 angle h =
     (c, append_calls c
           (forward_rotation d1 q1 @ forward_rotation d2 q2 @
            [Call ''CNOT'' [q1, q2] None, Call ''rz'' [q2] (Some angle),
             Call ''CNOT'' [q1, q2] None] @
            backward_rotation d1 q1 @ backward_rotation d2 q2) h) \<and>
   forward_rotation (label b) q = basis_change b q \<and>
   backward_rotation (label b) q = basis_undo b q \<and>
   (d \<noteq> CHR ''x'' \<and> d \<noteq> CHR ''y'' \<longrightarrow>
      forward_rotation d q = [] \<and> backward_rotation d q = []) \<and>
   (d1 \<noteq> CHR ''x'' \<and> d1 \<noteq> CHR ''y'' \<and> d2 \<noteq> CHR ''x'' \<and> d2 \<noteq> CHR ''y'' \<longrightarrow>
      double_gate_f d1 d2 c q1 q2 angle h =
        (c, append_calls c
              [Call ''CNOT'' [q1, q2] None, Call ''rz'' [q2] (Some angle),
               Call ''CNOT'' [q1, q2] None] h))"
proof -
  have fw: "forward_rotation (label b) q = basis_change b q"
    and bw: "backward_rotation (label b) q = basis_undo b q"
    by (cases b; simp add: forward_rotation_def backward_rotation_def)+
  have other: "forward_rotation e p = [] \<and> backward_rotation e p = []"
    if "e \<noteq> CHR ''x'' \<and> e \<noteq> CHR ''y''" for e p
    using that by (simp add: forward_rotation_def backward_rotation_def)
  have run: "double_gate_f d1 d2 c q1 q2 angle h =
     (c, append_calls c
           (forward_rotation d1 q1 @ forward_rotation d2 q2 @
            [Call ''CNOT'' [q1, q2] None, Call ''rz'' [q2] (Some angle),
             Call ''CNOT'' [q1, q2] None] @
            backward_rotation d1 q1 @ backward_rotation d2 q2) h)"
    by (simp add: double_gate_f_calls sandwich_def)
  have bare: "double_gate_f d1 d2 c q1 q2 angle h =
        (c, append_calls c
              [Call ''CNOT'' [q1, q2] None, Call ''rz'' [q2] (Some angle),
               Call ''CNOT'' [q1, q2] None] h)"
    if "d1 \<noteq> CHR ''x'' \<and> d1 \<noteq> CHR ''y'' \<and> d2 \<noteq> CHR ''x'' \<and> d2 \<noteq> CHR ''y''"
    using that by (simp add: run other)
  have gen: "generate_double_gate [] m = Inl IndexError \<and>
     generate_double_gate [d1] m = Inl IndexError \<and>
     generate_double_gate (d1 # d2 # rest) m =
       Inr (setattr (d1 # d2 # rest @ ''gate'')
              \<lparr>f_body = DoubleGateF d1 d2, f_doc = d1 # d2 # rest @ ''gate'', f_repr = None,
               f_trainable = None\<rparr> m)"
    by (simp add: generate_double_gate_def)
  have call: "call4 \<lparr>f_body = DoubleGateF d1 d2, f_doc = d1 # d2 # rest @ ''gate'',
          f_repr = None, f_trainable = None\<rparr> c q1 q2 angle h =
     Inr (double_gate_f d1 d2 c q1 q2 angle h)"
    by simp
  from gen call run fw bw other[of d q] bare show ?thesis
    by blast
qed

text \<open>
  Instances of the amended C10: the label \<open>ab\<close>, two characters that are no basis
  labels, and the label \<open>xb\<close>, where only the second is none.
\<close>

theorem double_gate_any_label_witness:
  "generate_double_gate ''ab'' empty_module =
     Inr (setattr ''abgate''
            \<lparr>f_body = DoubleGateF CHR ''a'' CHR ''b'', f_doc = ''abgate'', f_repr = None,
             f_trainable = None\<rparr> empty_module) \<and>
   CHR ''a'' \<noteq> CHR ''x'' \<and> CHR ''a'' \<noteq> CHR ''y'' \<and>
   CHR ''b'' \<noteq> CHR ''x'' \<and> CHR ''b'' \<noteq> CHR ''y'' \<and>
   forward_rotation CHR ''b'' 1 = [] \<and> backward_rotation CHR ''b'' 1 = [] \<and>
   double_gate_f CHR ''a'' CHR ''b'' 0 0 1 (1 / 2) (blank_store 2) =
     (0, append_calls 0
           [Call ''CNOT'' [0, 1] None, Call ''rz'' [1] (Some (1 / 2)), Call ''CNOT'' [0, 1] None]
           (blank_store 2)) \<and>
   double_gate_f CHR ''x'' CHR ''b'' 0 0 1 (1 / 2) (blank_store 2) =
     (0, append_calls 0
           [Call ''H'' [0] None, Call ''CNOT'' [0, 1] None, Call ''rz'' [1] (Some (1 / 2)),
            Call ''CNOT'' [0, 1] None, Call ''H'' [0] None]
           (blank_store 2))"
proof -
  have ab: "CHR ''a'' \<noteq> CHR ''x'' \<and> CHR ''a'' \<noteq> CHR ''y'' \<and>
            CHR ''b'' \<noteq> CHR ''x'' \<and> CHR ''b'' \<noteq> CHR ''y''"
    by simp
  note inst = double_gate_any_label [where m = empty_module and rest = "[]" and c = 0
      and ?q1.0 = 0 and ?q2.0 = 1 and angle = "1 / 2" and h = "blank_store 2" and b = BX
      and q = 1 and d = "CHR ''b''"]
  note unknown = inst [where ?d1.0 = "CHR ''a''" and ?d2.0 = "CHR ''b''"]
  note mixed = inst [where ?d1.0 = "CHR ''x''" and ?d2.0 = "CHR ''b''"]
  from unknown
  have "generate_double_gate (CHR ''a'' # CHR ''b'' # []) empty_module =
     Inr (setattr (CHR ''a'' # CHR ''b'' # [] @ ''gate'')
            \<lparr>f_body = DoubleGateF CHR ''a'' CHR ''b'', f_doc = CHR ''a'' # CHR ''b'' # [] @ ''gate'',
             f_repr = None, f_trainable = None\<rparr> empty_module)"
    by blast
  then have 1: "generate_double_gate ''ab'' empty_module =
     Inr (setattr ''abgate''
            \<lparr>f_body = DoubleGateF CHR ''a'' CHR ''b'', f_doc = ''abgate'', f_repr = None,
             f_trainable = None\<rparr> empty_module)"
    by simp
  from unknown ab
  have 2: "forward_rotation CHR ''b'' 1 = [] \<and> backward_rotation CHR ''b'' 1 = []"
    by blast
  from unknown ab
  have 3: "double_gate_f CHR ''a'' CHR ''b'' 0 0 1 (1 / 2) (blank_store 2) =
     (0, append_calls 0
           [Call ''CNOT'' [0, 1] None, Call ''rz'' [1] (Some (1 / 2)), Call ''CNOT'' [0, 1] None]
           (blank_store 2))"
    by blast
  from mixed
  have "double_gate_f CHR ''x'' CHR ''b'' 0 0 1 (1 / 2) (blank_store 2) =
     (0, append_calls 0
           (forward_rotation CHR ''x'' 0 @ forward_rotation CHR ''b'' 1 @
            [Call ''CNOT'' [0, 1] None, Call ''rz'' [1] (Some (1 / 2)),
             Call ''CNOT'' [0, 1] None] @
            backward_rotation CHR ''x'' 0 @ backward_rotation CHR ''b'' 1) (blank_store 2))"
    by blast
  then have 4: "double_gate_f CHR ''x'' CHR ''b'' 0 0 1 (1 / 2) (blank_store 2) =
     (0, append_calls 0
           [Call ''H'' [0] None, Call ''CNOT'' [0, 1] None, Call ''rz'' [1] (Some (1 / 2)),
            Call ''CNOT'' [0, 1] None, Call ''H'' [0] None]
           (blank_store 2))"
    by (simp add: 2 forward_rotation_def backward_rotation_def)
  from ab 1 2 3 4 show ?thesis
    by blast
qed

end
